theory Spec2Isabelle
  imports Complex_Main "HOL-Library.Product_Lexorder" "HOL-Library.Log_Nat"
begin

section \<open>Data model\<close>

text \<open>
  The procurement workflow of \<^verbatim>\<open>next_custom_app\<close> runs on top of a document store.
  A document field that Python reads as \<^verbatim>\<open>None\<close> or a string is a
  \<^typ>\<open>string option\<close>; Python's truth test on it (\<^verbatim>\<open>if not doc.get("x")\<close>) is
  \<open>truthy\<close>: \<^verbatim>\<open>None\<close> and the empty string are false.
\<close>

definition truthy :: "string option \<Rightarrow> bool" where
  "truthy v = (case v of None \<Rightarrow> False | Some s \<Rightarrow> s \<noteq> [])"

text \<open>
  Quantities are the store's Float fields, which Python reads as doubles. A finite double
  is the rational number it denotes, so a quantity is a \<^typ>\<open>rat\<close> and Python's
  comparison of two quantities is the comparison of the rationals; \<^verbatim>\<open>flt(x)\<close> with no
  precision and \<^verbatim>\<open>x or 0\<close> are the identity on quantities. Python's \<^verbatim>\<open>+\<close> and
  \<^verbatim>\<open>-\<close> on doubles round their result, so they are not the operations of
  \<^typ>\<open>rat\<close>: they are the two fields of \<open>arith\<close>, which every function that computes
  with quantities takes as its first argument \<open>ops\<close>. Each \<^verbatim>\<open>a + b\<close> of the source is
  \<open>plus_op ops a b\<close> and each \<^verbatim>\<open>a - b\<close> is \<open>minus_op ops a b\<close>, in the order and
  with the bracketing of the source. Nothing is assumed of the two operations in the
  general theorems; \<open>double_ops\<close> below is the arithmetic of Python.
\<close>

record arith =
  plus_op :: "rat \<Rightarrow> rat \<Rightarrow> rat"
  minus_op :: "rat \<Rightarrow> rat \<Rightarrow> rat"

text \<open>
  The arithmetic of doubles (IEEE 754 binary64, round to nearest, ties to even): the
  result of an operation is its exact result rounded to the nearest number with 53
  significant bits, a tie going to the even significand. \<open>round53\<close> is that rounding;
  \<open>floor_log2 x\<close> is the exponent \<open>k\<close> with \<open>2 ^ k \<le> \<bar>x\<bar> < 2 ^ (k + 1)\<close> and
  \<open>pow2 k\<close> is \<open>2 ^ k\<close>. The exponent is not bounded: overflow and subnormal numbers,
  which sums and differences of procurement quantities do not reach, are left out. The
  double that Python reads for a decimal such as \<^verbatim>\<open>0.1\<close> is \<open>round53 (1 / 10)\<close>.
\<close>

definition round_half_even :: "rat \<Rightarrow> int" where
  "round_half_even x =
     (let f = \<lfloor>x\<rfloor>; d = x - of_int f
      in if d < 1 / 2 then f else if d > 1 / 2 then f + 1 else if even f then f else f + 1)"

definition pow2 :: "int \<Rightarrow> rat" where
  "pow2 k = (if k \<ge> 0 then 2 ^ nat k else 1 / 2 ^ nat (- k))"

definition floor_log2 :: "rat \<Rightarrow> int" where
  "floor_log2 x =
     (if \<bar>x\<bar> \<ge> 1 then int (floorlog 2 (nat \<lfloor>\<bar>x\<bar>\<rfloor>)) - 1
      else (let y = 1 / \<bar>x\<bar>; n = int (floorlog 2 (nat \<lfloor>y\<rfloor>)) - 1
            in if y = pow2 n then - n else - n - 1))"

definition round53 :: "rat \<Rightarrow> rat" where
  "round53 x =
     (if x = 0 then 0
      else (let e = floor_log2 x - 52 in of_int (round_half_even (x / pow2 e)) * pow2 e))"

definition double_ops :: arith where
  "double_ops = \<lparr>plus_op = (\<lambda>x y. round53 (x + y)), minus_op = (\<lambda>x y. round53 (x - y))\<rparr>"

record line_item =
  item_code :: string
  qty :: rat
  ordered_qty :: rat
  remaining_qty :: rat

record procurement_document_link =
  source_doctype :: string
  source_docname :: string
  target_doctype :: string
  target_docname :: string
  link_date :: nat

record document =
  doctype :: string
  name :: string
  docstatus :: nat
  islocal :: bool
  procurement_source_doctype :: "string option"
  procurement_source_name :: "string option"
  supplier :: "string option"
  suppliers :: "string list"
  items :: "line_item list"
  procurement_links :: "procurement_document_link list"

type_synonym store = "document list"

record flow_step =
  step_no :: int
  doctype_name :: string
  requires_source :: bool

record procurement_flow =
  flow_docname :: string
  is_active :: bool
  flow_steps :: "flow_step list"

record rfq_supplier_rule =
  rule_name :: string
  amount_from :: rat
  amount_to :: rat
  min_suppliers :: int
  priority :: int
  rule_is_active :: bool

text \<open>
  Every \<^verbatim>\<open>frappe.throw\<close> and every exception that leaves a hook is a value of
  \<open>error\<close>; a hook returns \<open>error + unit\<close>, \<open>Inl\<close> being the rejection. The payloads are
  the numbers and names the source formats into its message.
\<close>

datatype error =
    BothOrNeither
  | InvalidSource string "string option"
  | InvalidItem string
  | QuantityExceeded string rat rat rat rat "(string \<times> rat) list"
  | SupplierNotInRFQ string "string list"
  | DoesNotExistError string string
  | RFQLimitExceeded string rat rat rat rat
  | SupplierMismatch "string option" "string option"
  | CancellationNotAllowed nat "(string \<times> string list) list"

definition rejected :: "error + unit \<Rightarrow> bool" where
  "rejected r = (case r of Inl e \<Rightarrow> True | Inr u \<Rightarrow> False)"

abbreviation RFQ :: string where "RFQ \<equiv> ''Request for Quotation''"
abbreviation SQ :: string where "SQ \<equiv> ''Supplier Quotation''"
abbreviation PO :: string where "PO \<equiv> ''Purchase Order''"

subsection \<open>The document store\<close>

text \<open>
  \<^verbatim>\<open>frappe.get_doc(doctype, name)\<close> is \<open>get_doc\<close> (\<open>None\<close> is
  \<^verbatim>\<open>DoesNotExistError\<close>); \<^verbatim>\<open>frappe.get_all(doctype, filters, fields=["name"])\<close> is
  \<open>get_all\<close>, the names of the stored documents of that doctype that pass the filter;
  \<^verbatim>\<open>doc.save()\<close> on an existing document is \<open>save_doc\<close>.
\<close>

definition get_doc :: "store \<Rightarrow> string \<Rightarrow> string \<Rightarrow> document option" where
  "get_doc db dt n = find (\<lambda>d. doctype d = dt \<and> name d = n) db"

definition get_all :: "store \<Rightarrow> string \<Rightarrow> (document \<Rightarrow> bool) \<Rightarrow> string list" where
  "get_all db dt flt = map name (filter (\<lambda>d. doctype d = dt \<and> flt d) db)"

definition save_doc :: "store \<Rightarrow> document \<Rightarrow> store" where
  "save_doc db d = map (\<lambda>x. if doctype x = doctype d \<and> name x = name d then d else x) db"

text \<open>
  The test \<^verbatim>\<open>doc.get("procurement_source_doctype") and doc.get("procurement_source_name")\<close>
  recurs through the source; \<open>source_ref\<close> is that test, returning the two values
  when both are truthy.
\<close>

definition source_ref :: "document \<Rightarrow> (string \<times> string) option" where
  "source_ref doc =
     (case (procurement_source_doctype doc, procurement_source_name doc) of
        (Some sd, Some sn) \<Rightarrow> if sd \<noteq> [] \<and> sn \<noteq> [] then Some (sd, sn) else None
      | _ \<Rightarrow> None)"

section \<open>Cancellation guard\<close>

text \<open>
  \<^verbatim>\<open>check_can_cancel\<close> groups the forward links by target doctype in a dict (insertion
  ordered, here an association list) and throws when there is at least one link.
\<close>

fun dict_append :: "(string \<times> string list) list \<Rightarrow> string \<Rightarrow> string \<Rightarrow> (string \<times> string list) list" where
  "dict_append [] k v = [(k, [v])]"
| "dict_append ((k', vs) # rest) k v =
     (if k' = k then (k', vs @ [v]) # rest else (k', vs) # dict_append rest k v)"

definition docs_by_type :: "procurement_document_link list \<Rightarrow> (string \<times> string list) list" where
  "docs_by_type forward_links =
     foldl (\<lambda>d link. dict_append d (target_doctype link) (target_docname link)) [] forward_links"

definition check_can_cancel :: "document \<Rightarrow> error + unit" where
  "check_can_cancel doc =
     (let forward_links = procurement_links doc in
      if forward_links \<noteq> []
      then Inl (CancellationNotAllowed (length forward_links) (docs_by_type forward_links))
      else Inr ())"

section \<open>Supplier rules\<close>

text \<open>
  \<^verbatim>\<open>get_applicable_rule\<close> asks the store for the active rules with
  \<^verbatim>\<open>amount_from <= total_amount < amount_to\<close>, ordered by
  \<^verbatim>\<open>priority asc, amount_from asc\<close>, and returns the first row or \<^verbatim>\<open>None\<close>.
\<close>

definition covers :: "rfq_supplier_rule \<Rightarrow> rat \<Rightarrow> bool" where
  "covers r total_amount =
     (rule_is_active r \<and> amount_from r \<le> total_amount \<and> amount_to r > total_amount)"

definition get_applicable_rule :: "rfq_supplier_rule list \<Rightarrow> rat \<Rightarrow> rfq_supplier_rule option" where
  "get_applicable_rule all_rules total_amount =
     (let rules = sort_key (\<lambda>r. (priority r, amount_from r))
                    (filter (\<lambda>r. covers r total_amount) all_rules)
      in case rules of [] \<Rightarrow> None | r # rest \<Rightarrow> Some r)"

section \<open>Chain validator\<close>

text \<open>
  The flow configuration is the list of stored Procurement Flow records.
  \<^verbatim>\<open>get_flow_steps\<close> sorts the steps of a flow by \<^verbatim>\<open>step_no\<close> (a stable sort, as
  Python's \<^verbatim>\<open>sorted\<close>). The three step look-ups share the preamble that resolves an
  absent \<^verbatim>\<open>flow_name\<close> to the active flow: \<open>resolve_flow_name\<close>.
\<close>

definition get_active_flow :: "procurement_flow list \<Rightarrow> procurement_flow option" where
  "get_active_flow flows = find is_active flows"

definition get_flow_steps :: "procurement_flow list \<Rightarrow> string \<Rightarrow> error + flow_step list" where
  "get_flow_steps flows flow_name =
     (case find (\<lambda>f. flow_docname f = flow_name) flows of
        None \<Rightarrow> Inl (DoesNotExistError ''Procurement Flow'' flow_name)
      | Some flow \<Rightarrow> Inr (sort_key step_no (flow_steps flow)))"

definition resolve_flow_name :: "procurement_flow list \<Rightarrow> string option \<Rightarrow> string option" where
  "resolve_flow_name flows flow_name =
     (if truthy flow_name then flow_name
      else (case get_active_flow flows of None \<Rightarrow> None | Some af \<Rightarrow> Some (flow_docname af)))"

definition get_current_step ::
  "procurement_flow list \<Rightarrow> string \<Rightarrow> string option \<Rightarrow> error + flow_step option" where
  "get_current_step flows dt flow_name =
     (case resolve_flow_name flows flow_name of
        None \<Rightarrow> Inr None
      | Some fname \<Rightarrow>
          (case get_flow_steps flows fname of
             Inl e \<Rightarrow> Inl e
           | Inr steps \<Rightarrow> Inr (find (\<lambda>step. doctype_name step = dt) steps)))"

text \<open>
  \<^verbatim>\<open>for i, step in enumerate(steps): if step.doctype_name == current_doctype and i > 0:
  return steps[i - 1]\<close>
\<close>

definition previous_in :: "flow_step list \<Rightarrow> string \<Rightarrow> flow_step option" where
  "previous_in steps current_doctype =
     (case find (\<lambda>i. doctype_name (steps ! i) = current_doctype \<and> i > 0) [0..<length steps] of
        None \<Rightarrow> None
      | Some i \<Rightarrow> Some (steps ! (i - 1)))"

definition get_previous_step ::
  "procurement_flow list \<Rightarrow> string \<Rightarrow> string option \<Rightarrow> error + flow_step option" where
  "get_previous_step flows current_doctype flow_name =
     (case resolve_flow_name flows flow_name of
        None \<Rightarrow> Inr None
      | Some fname \<Rightarrow>
          (case get_flow_steps flows fname of
             Inl e \<Rightarrow> Inl e
           | Inr steps \<Rightarrow> Inr (previous_in steps current_doctype)))"

definition validate_step_order :: "procurement_flow list \<Rightarrow> document \<Rightarrow> error + unit" where
  "validate_step_order flows doc =
     (case get_active_flow flows of
        None \<Rightarrow> Inr ()
      | Some active_flow \<Rightarrow>
          (case get_current_step flows (doctype doc) (Some (flow_docname active_flow)) of
             Inl e \<Rightarrow> Inl e
           | Inr None \<Rightarrow> Inr ()
           | Inr (Some current_step) \<Rightarrow>
               (let has_source_doctype = truthy (procurement_source_doctype doc);
                    has_source_name = truthy (procurement_source_name doc)
                in if requires_source current_step then
                     (if \<not> has_source_doctype \<and> \<not> has_source_name then Inr ()
                      else if has_source_doctype \<noteq> has_source_name then Inl BothOrNeither
                      else (case get_previous_step flows (doctype doc)
                                   (Some (flow_docname active_flow)) of
                              Inl e \<Rightarrow> Inl e
                            | Inr None \<Rightarrow> Inr ()
                            | Inr (Some previous_step) \<Rightarrow>
                                if procurement_source_doctype doc
                                     \<noteq> Some (doctype_name previous_step)
                                then Inl (InvalidSource (doctype_name previous_step)
                                            (procurement_source_doctype doc))
                                else Inr ()))
                   else Inr ())))"

section \<open>Quantity ledger\<close>

definition get_items_field_name :: "string \<Rightarrow> string option" where
  "get_items_field_name dt =
     (if dt \<in> set [''Material Request'', ''Purchase Requisition'', RFQ, SQ, PO,
                     ''Purchase Receipt'', ''Purchase Invoice'']
      then Some ''items'' else None)"

text \<open>
  The dict \<^verbatim>\<open>consumed\<close> of \<^verbatim>\<open>get_consumed_quantities_detailed\<close> maps an item code to
  \<^verbatim>\<open>{"total": qty, "documents": [{"name", "qty"}]}\<close>, here a pair. A child document
  that cannot be loaded is skipped (\<^verbatim>\<open>except frappe.DoesNotExistError: pass\<close>).
\<close>

type_synonym consumed = "string \<rightharpoonup> (rat \<times> (string \<times> rat) list)"

definition add_item :: "arith \<Rightarrow> string \<Rightarrow> consumed \<Rightarrow> line_item \<Rightarrow> consumed" where
  "add_item ops doc_name consumed item =
     (let entry = (case consumed (item_code item) of None \<Rightarrow> (0, []) | Some e \<Rightarrow> e)
      in consumed(item_code item \<mapsto>
           (plus_op ops (fst entry) (qty item), snd entry @ [(doc_name, qty item)])))"

definition add_child_doc ::
  "arith \<Rightarrow> store \<Rightarrow> string \<Rightarrow> string option \<Rightarrow> consumed \<Rightarrow> string \<Rightarrow> consumed" where
  "add_child_doc ops db target_dt exclude_doc consumed doc_name =
     (if truthy exclude_doc \<and> Some doc_name = exclude_doc then consumed
      else (case get_doc db target_dt doc_name of
              None \<Rightarrow> consumed
            | Some target_doc \<Rightarrow> foldl (add_item ops doc_name) consumed (items target_doc)))"

definition get_consumed_quantities_detailed ::
  "arith \<Rightarrow> store \<Rightarrow> string \<Rightarrow> string \<Rightarrow> string \<Rightarrow> string option \<Rightarrow> consumed" where
  "get_consumed_quantities_detailed ops db source_dt source_name target_dt exclude_doc =
     (case get_items_field_name target_dt of
        None \<Rightarrow> Map.empty
      | Some target_items_field \<Rightarrow>
          foldl (add_child_doc ops db target_dt exclude_doc) Map.empty
            (get_all db target_dt
               (\<lambda>d. procurement_source_doctype d = Some source_dt
                    \<and> procurement_source_name d = Some source_name
                    \<and> docstatus d \<noteq> 2)))"

definition validate_supplier_in_rfq :: "store \<Rightarrow> document \<Rightarrow> error + unit" where
  "validate_supplier_in_rfq db doc =
     (case supplier doc of
        None \<Rightarrow> Inr ()
      | Some s \<Rightarrow>
          if s = [] then Inr ()
          else (case procurement_source_name doc of
                  None \<Rightarrow> Inr ()
                | Some rfq_name \<Rightarrow>
                    (case get_doc db RFQ rfq_name of
                       None \<Rightarrow> Inr ()
                     | Some rfq \<Rightarrow>
                         if s \<notin> set (suppliers rfq)
                         then Inl (SupplierNotInRFQ s (suppliers rfq))
                         else Inr ())))"

text \<open>The loop over \<^verbatim>\<open>target_items\<close>: the first offending line throws.\<close>

fun check_target_items ::
  "arith \<Rightarrow> line_item list \<Rightarrow> consumed \<Rightarrow> line_item list \<Rightarrow> error + unit" where
  "check_target_items ops source_items consumed_breakdown [] = Inr ()"
| "check_target_items ops source_items consumed_breakdown (target_item # rest) =
     (case find (\<lambda>si. item_code si = item_code target_item) source_items of
        None \<Rightarrow> Inl (InvalidItem (item_code target_item))
      | Some source_item \<Rightarrow>
          (let target_qty = qty target_item;
               source_qty = qty source_item;
               item_breakdown = (case consumed_breakdown (item_code target_item) of
                                   None \<Rightarrow> (0, []) | Some e \<Rightarrow> e);
               consumed_qty = fst item_breakdown;
               available_qty = minus_op ops source_qty consumed_qty
           in if target_qty > available_qty
              then Inl (QuantityExceeded (item_code target_item) source_qty consumed_qty
                          available_qty target_qty (snd item_breakdown))
              else check_target_items ops source_items consumed_breakdown rest))"

text \<open>
  A Purchase Order made from a Supplier Quotation that came from a Request for Quotation
  is tracked against that Request for Quotation: \<open>tracking_source\<close> returns the tracking
  doctype and name and the document whose lines give the source quantities.
\<close>

definition tracking_source ::
  "store \<Rightarrow> document \<Rightarrow> string \<Rightarrow> string \<Rightarrow> document \<Rightarrow> error + (string \<times> string \<times> document)" where
  "tracking_source db doc sd sn source_doc =
     (if doctype doc = PO \<and> sd = SQ then
        (case source_ref source_doc of
           None \<Rightarrow> Inr (sd, sn, source_doc)
         | Some (sq_sd, sq_sn) \<Rightarrow>
             if sq_sd = RFQ then
               (case get_doc db RFQ sq_sn of
                  None \<Rightarrow> Inl (DoesNotExistError RFQ sq_sn)
                | Some rfq \<Rightarrow> Inr (RFQ, sq_sn, rfq))
             else Inr (sd, sn, source_doc))
      else Inr (sd, sn, source_doc))"

definition validate_quantity_limits :: "arith \<Rightarrow> store \<Rightarrow> document \<Rightarrow> error + unit" where
  "validate_quantity_limits ops db doc =
     (case source_ref doc of
        None \<Rightarrow> Inr ()
      | Some (sd, sn) \<Rightarrow>
          if doctype doc = RFQ then Inr ()
          else
            (case (if doctype doc = SQ \<and> sd = RFQ then validate_supplier_in_rfq db doc
                   else Inr ()) of
               Inl e \<Rightarrow> Inl e
             | Inr u \<Rightarrow>
                 (case get_doc db sd sn of
                    None \<Rightarrow> Inl (DoesNotExistError sd sn)
                  | Some source_doc0 \<Rightarrow>
                      (case tracking_source db doc sd sn source_doc0 of
                         Inl e \<Rightarrow> Inl e
                       | Inr (tracking_dt, tracking_name, source_doc) \<Rightarrow>
                           if get_items_field_name sd = None
                              \<or> get_items_field_name (doctype doc) = None
                           then Inr ()
                           else
                             (let exclude_current =
                                    (if \<not> islocal doc then Some (name doc) else None);
                                  consumed_breakdown =
                                    get_consumed_quantities_detailed ops db tracking_dt
                                      tracking_name (doctype doc) exclude_current
                              in check_target_items ops (items source_doc) consumed_breakdown
                                   (items doc))))))"

fun check_items_in_source :: "string \<Rightarrow> line_item list \<Rightarrow> line_item list \<Rightarrow> error + unit" where
  "check_items_in_source sn source_items [] = Inr ()"
| "check_items_in_source sn source_items (target_item # rest) =
     (if item_code target_item \<notin> item_code ` set source_items
      then Inl (InvalidItem (item_code target_item))
      else check_items_in_source sn source_items rest)"

definition validate_items_against_source :: "store \<Rightarrow> document \<Rightarrow> error + unit" where
  "validate_items_against_source db doc =
     (case source_ref doc of
        None \<Rightarrow> Inr ()
      | Some (sd, sn) \<Rightarrow>
          (case get_doc db sd sn of
             None \<Rightarrow> Inl (DoesNotExistError sd sn)
           | Some source_doc \<Rightarrow>
               if get_items_field_name sd = None \<or> get_items_field_name (doctype doc) = None
               then Inr ()
               else check_items_in_source sn (items source_doc) (items doc)))"

definition validate_procurement_document ::
  "arith \<Rightarrow> procurement_flow list \<Rightarrow> store \<Rightarrow> document \<Rightarrow> error + unit" where
  "validate_procurement_document ops flows db doc =
     (case validate_step_order flows doc of
        Inl e \<Rightarrow> Inl e
      | Inr u \<Rightarrow>
          (case validate_quantity_limits ops db doc of
             Inl e \<Rightarrow> Inl e
           | Inr u \<Rightarrow> validate_items_against_source db doc))"

section \<open>Purchase Order control against the Request for Quotation\<close>

text \<open>
  \<^verbatim>\<open>calculate_rfq_ordered_quantities_dynamic\<close>: the submitted Supplier Quotations of the
  Request for Quotation, the Purchase Orders that are not cancelled made from them, and
  the running total of their lines by item code. Any exception ends the loop and the totals collected
  so far are returned.
\<close>

definition add_ordered :: "arith \<Rightarrow> (string \<rightharpoonup> rat) \<Rightarrow> line_item \<Rightarrow> (string \<rightharpoonup> rat)" where
  "add_ordered ops ordered_qtys item =
     ordered_qtys(item_code item \<mapsto>
       plus_op ops (case ordered_qtys (item_code item) of None \<Rightarrow> 0 | Some v \<Rightarrow> v) (qty item))"

fun sum_purchase_orders ::
  "arith \<Rightarrow> store \<Rightarrow> (string \<rightharpoonup> rat) \<Rightarrow> string list \<Rightarrow> (string \<rightharpoonup> rat)" where
  "sum_purchase_orders ops db ordered_qtys [] = ordered_qtys"
| "sum_purchase_orders ops db ordered_qtys (po_name # rest) =
     (case get_doc db PO po_name of
        None \<Rightarrow> ordered_qtys
      | Some po_doc \<Rightarrow>
          sum_purchase_orders ops db (foldl (add_ordered ops) ordered_qtys (items po_doc)) rest)"

definition calculate_rfq_ordered_quantities_dynamic ::
  "arith \<Rightarrow> store \<Rightarrow> string \<Rightarrow> (string \<rightharpoonup> rat)" where
  "calculate_rfq_ordered_quantities_dynamic ops db rfq_name =
     (let sqs = get_all db SQ
                  (\<lambda>d. procurement_source_doctype d = Some RFQ
                       \<and> procurement_source_name d = Some rfq_name
                       \<and> docstatus d = 1)
      in if sqs = [] then Map.empty
         else sum_purchase_orders ops db Map.empty
                (get_all db PO
                   (\<lambda>d. procurement_source_doctype d = Some SQ
                        \<and> (case procurement_source_name d of
                              None \<Rightarrow> False | Some n \<Rightarrow> n \<in> set sqs)
                        \<and> docstatus d \<noteq> 2)))"

text \<open>
  The quantity of the stored version of the Purchase Order for an item, which
  \<^verbatim>\<open>validate_po_against_rfq\<close> adds back when the document is not new.
\<close>

definition existing_po_qty :: "store \<Rightarrow> document \<Rightarrow> line_item \<Rightarrow> rat" where
  "existing_po_qty db doc po_item =
     (if \<not> islocal doc then
        (case get_doc db PO (name doc) of
           None \<Rightarrow> 0
         | Some original_po \<Rightarrow>
             (case find (\<lambda>i. item_code i = item_code po_item) (items original_po) of
                None \<Rightarrow> 0
              | Some original_item \<Rightarrow> qty original_item))
      else 0)"

fun check_po_items ::
  "arith \<Rightarrow> store \<Rightarrow> document \<Rightarrow> document \<Rightarrow> line_item list \<Rightarrow> error + unit" where
  "check_po_items ops db doc rfq [] = Inr ()"
| "check_po_items ops db doc rfq (po_item # rest) =
     (case find (\<lambda>i. item_code i = item_code po_item) (items rfq) of
        None \<Rightarrow> check_po_items ops db doc rfq rest
      | Some rfq_item \<Rightarrow>
          (let current_ordered_qty = ordered_qty rfq_item;
               rfq_total_qty = qty rfq_item;
               po_qty = qty po_item;
               available_qty = plus_op ops (minus_op ops rfq_total_qty current_ordered_qty)
                                 (existing_po_qty db doc po_item)
           in if po_qty > available_qty then
                (let all_pos_qty = calculate_rfq_ordered_quantities_dynamic ops db (name rfq);
                     actual_consumed = (case all_pos_qty (item_code po_item) of
                                          None \<Rightarrow> 0 | Some v \<Rightarrow> v)
                 in Inl (RFQLimitExceeded (item_code po_item) rfq_total_qty actual_consumed
                           available_qty po_qty))
              else check_po_items ops db doc rfq rest))"

text \<open>
  \<^verbatim>\<open>validate_po_against_rfq\<close> logs a \<^verbatim>\<open>DoesNotExistError\<close> and lets the save
  pass; the only exception that leaves it is its own throw.
\<close>

definition validate_po_against_rfq :: "arith \<Rightarrow> store \<Rightarrow> document \<Rightarrow> error + unit" where
  "validate_po_against_rfq ops db doc =
     (if doctype doc \<noteq> PO then Inr ()
      else if procurement_source_doctype doc \<noteq> Some SQ then Inr ()
      else (case procurement_source_name doc of
              None \<Rightarrow> Inr ()
            | Some sq_name \<Rightarrow>
                if sq_name = [] then Inr ()
                else (case get_doc db SQ sq_name of
                        None \<Rightarrow> Inr ()
                      | Some sq \<Rightarrow>
                          (case source_ref sq of
                             None \<Rightarrow> Inr ()
                           | Some (sq_sd, rfq_name) \<Rightarrow>
                               if sq_sd \<noteq> RFQ then Inr ()
                               else (case get_doc db RFQ rfq_name of
                                       None \<Rightarrow> Inr ()
                                     | Some rfq \<Rightarrow> check_po_items ops db doc rfq (items doc))))))"

definition validate_supplier_matches_sq :: "store \<Rightarrow> document \<Rightarrow> error + document" where
  "validate_supplier_matches_sq db doc =
     (if doctype doc \<noteq> PO then Inr doc
      else if procurement_source_doctype doc \<noteq> Some SQ then Inr doc
      else (case procurement_source_name doc of
              None \<Rightarrow> Inr doc
            | Some sq_name \<Rightarrow>
                if sq_name = [] then Inr doc
                else (case get_doc db SQ sq_name of
                        None \<Rightarrow> Inr doc
                      | Some sq \<Rightarrow>
                          if \<not> truthy (supplier doc) then Inr (doc\<lparr>supplier := supplier sq\<rparr>)
                          else if supplier doc \<noteq> supplier sq
                          then Inl (SupplierMismatch (supplier sq) (supplier doc))
                          else Inr doc)))"

definition on_po_validate :: "arith \<Rightarrow> store \<Rightarrow> document \<Rightarrow> error + unit" where
  "on_po_validate ops db doc =
     (case validate_supplier_matches_sq db doc of
        Inl e \<Rightarrow> Inl e
      | Inr doc' \<Rightarrow> validate_po_against_rfq ops db doc')"

text \<open>
  \<^verbatim>\<open>update_rfq_ordered_qty\<close>: for each Purchase Order line, the first line of the Request
  for Quotation with the same item code is updated. The whole body is in a
  \<^verbatim>\<open>try\<close> whose handler only logs, so a missing document or a failed
  \<^verbatim>\<open>rfq.save()\<close> (\<open>save_ok\<close> false) leaves the store as it was.
\<close>

fun update_rfq_items :: "arith \<Rightarrow> string \<Rightarrow> line_item \<Rightarrow> line_item list \<Rightarrow> line_item list" where
  "update_rfq_items ops action po_item [] = []"
| "update_rfq_items ops action po_item (rfq_item # rest) =
     (if item_code rfq_item = item_code po_item then
        (let po_qty = qty po_item;
             new_ordered =
               (if action = ''add'' then plus_op ops (ordered_qty rfq_item) po_qty
                else if action = ''subtract''
                then max 0 (minus_op ops (ordered_qty rfq_item) po_qty)
                else ordered_qty rfq_item)
         in rfq_item\<lparr>ordered_qty := new_ordered,
                      remaining_qty := minus_op ops (qty rfq_item) new_ordered\<rparr> # rest)
      else rfq_item # update_rfq_items ops action po_item rest)"

definition update_rfq_ordered_qty ::
  "arith \<Rightarrow> bool \<Rightarrow> store \<Rightarrow> document \<Rightarrow> string \<Rightarrow> store" where
  "update_rfq_ordered_qty ops save_ok db po_doc action =
     (if doctype po_doc \<noteq> PO then db
      else if procurement_source_doctype po_doc \<noteq> Some SQ then db
      else (case procurement_source_name po_doc of
              None \<Rightarrow> db
            | Some sq_name \<Rightarrow>
                (case get_doc db SQ sq_name of
                   None \<Rightarrow> db
                 | Some sq \<Rightarrow>
                     (case source_ref sq of
                        None \<Rightarrow> db
                      | Some (sq_sd, rfq_name) \<Rightarrow>
                          if sq_sd \<noteq> RFQ then db
                          else (case get_doc db RFQ rfq_name of
                                  None \<Rightarrow> db
                                | Some rfq \<Rightarrow>
                                    if save_ok then
                                      save_doc db
                                        (rfq\<lparr>items :=
                                              foldl (\<lambda>its po_item. update_rfq_items ops action po_item its)
                                                (items rfq) (items po_doc)\<rparr>)
                                    else db)))))"

definition on_po_submit :: "arith \<Rightarrow> bool \<Rightarrow> store \<Rightarrow> document \<Rightarrow> store" where
  "on_po_submit ops save_ok db doc = update_rfq_ordered_qty ops save_ok db doc ''add''"

definition on_po_cancel :: "arith \<Rightarrow> bool \<Rightarrow> store \<Rightarrow> document \<Rightarrow> store" where
  "on_po_cancel ops save_ok db doc = update_rfq_ordered_qty ops save_ok db doc ''subtract''"

section \<open>Link graph builder\<close>

text \<open>
  \<^verbatim>\<open>create_backward_link\<close>: \<open>has_field\<close> says whether the doctype has the
  \<^verbatim>\<open>procurement_links\<close> table, \<open>now\<close> is the time stamp, and \<open>save_ok\<close> whether
  \<^verbatim>\<open>source_doc.save\<close> succeeds. Every exception is logged and swallowed.
\<close>

definition create_backward_link ::
  "(string \<Rightarrow> bool) \<Rightarrow> bool \<Rightarrow> nat \<Rightarrow> store \<Rightarrow> string \<Rightarrow> string \<Rightarrow> string \<Rightarrow> string \<Rightarrow> store" where
  "create_backward_link has_field save_ok now db source_dt source_nm target_dt target_nm =
     (case get_doc db source_dt source_nm of
        None \<Rightarrow> db
      | Some source_doc \<Rightarrow>
          if \<not> has_field source_dt then db
          else
            (let existing_links = procurement_links source_doc in
             if \<exists>link \<in> set existing_links.
                  target_doctype link = target_dt \<and> target_docname link = target_nm
             then db
             else if save_ok then
               save_doc db
                 (source_doc\<lparr>procurement_links := existing_links @
                    [\<lparr>source_doctype = source_dt, source_docname = source_nm,
                      target_doctype = target_dt, target_docname = target_nm,
                      link_date = now\<rparr>]\<rparr>)
             else db))"

definition on_procurement_submit ::
  "(string \<Rightarrow> bool) \<Rightarrow> bool \<Rightarrow> nat \<Rightarrow> store \<Rightarrow> document \<Rightarrow> store" where
  "on_procurement_submit has_field save_ok now db doc =
     (case source_ref doc of
        None \<Rightarrow> db
      | Some (sd, sn) \<Rightarrow> create_backward_link has_field save_ok now db sd sn (doctype doc) (name doc))"

text \<open>The number of edges of a document to one target.\<close>

definition edges_to :: "document \<Rightarrow> string \<Rightarrow> string \<Rightarrow> nat" where
  "edges_to d target_dt target_nm =
     length (filter (\<lambda>link. target_doctype link = target_dt \<and> target_docname link = target_nm)
               (procurement_links d))"

section \<open>Backward walks\<close>

text \<open>
  \<^verbatim>\<open>find_root_document\<close> and \<^verbatim>\<open>get_path_to_document\<close> count their hops in
  \<^verbatim>\<open>iterations\<close> and stop at \<^verbatim>\<open>max_iterations = 20\<close>; a document that cannot be
  loaded ends the walk (\<^verbatim>\<open>except: break\<close>).
\<close>

function find_root_loop :: "store \<Rightarrow> string \<Rightarrow> string \<Rightarrow> nat \<Rightarrow> string \<times> string" where
  "find_root_loop db current_dt current_name iterations =
     (if iterations < 20 then
        (case get_doc db current_dt current_name of
           None \<Rightarrow> (current_dt, current_name)
         | Some doc \<Rightarrow>
             (case source_ref doc of
                Some (sd, sn) \<Rightarrow> find_root_loop db sd sn (iterations + 1)
              | None \<Rightarrow> (current_dt, current_name)))
      else (current_dt, current_name))"
  by pat_completeness auto
termination
  by (relation "measure (\<lambda>(db, dt, n, iterations). 20 - iterations)") auto

definition find_root_document :: "store \<Rightarrow> string \<Rightarrow> string \<Rightarrow> string \<times> string" where
  "find_root_document db dt docname = find_root_loop db dt docname 0"

function path_loop ::
  "store \<Rightarrow> string \<Rightarrow> string \<Rightarrow> nat \<Rightarrow> (string \<times> string) list \<Rightarrow> (string \<times> string) list" where
  "path_loop db current_dt current_name iterations path =
     (if iterations < 20 then
        (let path' = (current_dt, current_name) # path in
         case get_doc db current_dt current_name of
           None \<Rightarrow> path'
         | Some doc \<Rightarrow>
             (case source_ref doc of
                Some (sd, sn) \<Rightarrow> path_loop db sd sn (iterations + 1) path'
              | None \<Rightarrow> path'))
      else path)"
  by pat_completeness auto
termination
  by (relation "measure (\<lambda>(db, dt, n, iterations, path). 20 - iterations)") auto

definition get_path_to_document :: "store \<Rightarrow> string \<Rightarrow> string \<Rightarrow> (string \<times> string) set" where
  "get_path_to_document db dt docname = set (path_loop db dt docname 0 [])"

text \<open>
  The two loops are unfolded one step at a time, by the instance of their equation that
  a proof names.
\<close>

declare find_root_loop.simps [simp del] path_loop.simps [simp del]

text \<open>
  The backward walk of \<^verbatim>\<open>get_linked_documents_with_counts\<close> is
  \<^verbatim>\<open>while current_doctype and current_name:\<close> with no counter. It may not return, so
  it is a partial function: \<open>None\<close> is a walk that never ends.
\<close>

partial_function (option) backward_chain_loop ::
  "store \<Rightarrow> string option \<Rightarrow> string option \<Rightarrow> (string \<times> string) list \<Rightarrow> (string \<times> string) list option" where
  "backward_chain_loop db current_doctype current_name backward_chain =
     (case (current_doctype, current_name) of
        (Some dt, Some n) \<Rightarrow>
          if dt \<noteq> [] \<and> n \<noteq> [] then
            (case get_doc db dt n of
               None \<Rightarrow> Some (backward_chain @ [(dt, n)])
             | Some parent_doc \<Rightarrow>
                 backward_chain_loop db (procurement_source_doctype parent_doc)
                   (procurement_source_name parent_doc) (backward_chain @ [(dt, n)]))
          else Some backward_chain
      | _ \<Rightarrow> Some backward_chain)"

definition backward_links :: "store \<Rightarrow> document \<Rightarrow> (string \<times> string) list option" where
  "backward_links db doc =
     (case source_ref doc of
        None \<Rightarrow> Some []
      | Some (sd, sn) \<Rightarrow> backward_chain_loop db (Some sd) (Some sn) [])"

section \<open>Specification vocabulary and example states\<close>

text \<open>
  The pairs (doctype, name) that a grouping of links lists, each name under its doctype.
\<close>

definition link_pairs :: "(string \<times> string list) list \<Rightarrow> (string \<times> string) set" where
  "link_pairs d = {(k, v). \<exists>vs. (k, vs) \<in> set d \<and> v \<in> set vs}"

text \<open>A submitted Purchase Requisition with one Request for Quotation made from it.\<close>

definition pr_with_child :: document where
  "pr_with_child = \<lparr>doctype = ''Purchase Requisition'', name = ''PR-1'', docstatus = 1,
     islocal = False, procurement_source_doctype = None, procurement_source_name = None,
     supplier = None, suppliers = [], items = [],
     procurement_links = [\<lparr>source_doctype = ''Purchase Requisition'', source_docname = ''PR-1'',
        target_doctype = RFQ, target_docname = ''RFQ-1'', link_date = 0\<rparr>]\<rparr>"

text \<open>Two active rules over the adjacent ranges 100 to 1000 and 1000 to 5000.\<close>

definition rule_low :: rfq_supplier_rule where
  "rule_low = \<lparr>rule_name = ''low'', amount_from = 100, amount_to = 1000, min_suppliers = 3,
                priority = 1, rule_is_active = True\<rparr>"

definition rule_high :: rfq_supplier_rule where
  "rule_high = \<lparr>rule_name = ''high'', amount_from = 1000, amount_to = 5000, min_suppliers = 5,
                 priority = 1, rule_is_active = True\<rparr>"

text \<open>
  The ledger's vocabulary. \<open>consumed_total\<close> reads the \<^verbatim>\<open>total\<close> of an item code
  out of the dict (\<^verbatim>\<open>consumed_breakdown.get(item_code, {"total": 0, ...})\<close>).
  \<open>sibling_docs\<close> are the stored documents of the target doctype that name the given
  source and are not cancelled, the excluded document left out, in the order of the
  query; \<open>item_lines\<close> are the quantities of the lines of one item code in a document, in
  line order. \<open>consumed_by_siblings\<close> is the total consumed by the siblings as the
  arithmetic of \<open>ops\<close> gives it: the running total that starts at 0 and takes the
  quantities one at a time, the documents in query order and the lines in line order.
  With the arithmetic of doubles it need not be the exact sum, and it may depend on that
  order. \<open>unique_names\<close> is the store's primary key: no two stored documents share
  doctype and name.
\<close>

definition consumed_total :: "consumed \<Rightarrow> string \<Rightarrow> rat" where
  "consumed_total m code = (case m code of None \<Rightarrow> 0 | Some e \<Rightarrow> fst e)"

definition item_lines :: "string \<Rightarrow> line_item list \<Rightarrow> rat list" where
  "item_lines code its = map qty (filter (\<lambda>i. item_code i = code) its)"

definition sibling_docs :: "store \<Rightarrow> string \<Rightarrow> string \<Rightarrow> string \<Rightarrow> string option \<Rightarrow> document list" where
  "sibling_docs db sd sn target_dt exclude_doc =
     filter (\<lambda>d. doctype d = target_dt
                \<and> procurement_source_doctype d = Some sd
                \<and> procurement_source_name d = Some sn
                \<and> docstatus d \<noteq> 2
                \<and> \<not> (truthy exclude_doc \<and> Some (name d) = exclude_doc)) db"

definition consumed_by_siblings ::
  "arith \<Rightarrow> store \<Rightarrow> string \<Rightarrow> string \<Rightarrow> string \<Rightarrow> string option \<Rightarrow> string \<Rightarrow> rat" where
  "consumed_by_siblings ops db sd sn target_dt exclude_doc code =
     foldl (plus_op ops) 0
       (concat (map (\<lambda>d. item_lines code (items d))
                  (sibling_docs db sd sn target_dt exclude_doc)))"

definition unique_names :: "store \<Rightarrow> bool" where
  "unique_names db = distinct (map (\<lambda>d. (doctype d, name d)) db)"

definition child_lines :: "store \<Rightarrow> string \<Rightarrow> string option \<Rightarrow> string \<Rightarrow> string \<Rightarrow> rat list" where
  "child_lines db target_dt exclude_doc code nm =
     (if truthy exclude_doc \<and> Some nm = exclude_doc then []
      else (case get_doc db target_dt nm of None \<Rightarrow> [] | Some d \<Rightarrow> item_lines code (items d)))"

text \<open>
  The Request for Quotation that \<^verbatim>\<open>validate_po_against_rfq\<close> reaches from a Purchase
  Order through its Supplier Quotation, when it reaches one. \<open>cached_gate_rejects\<close> is
  the comparison the source makes for a line of a new Purchase Order, with the stored
  \<^verbatim>\<open>ordered_qty\<close> of the matching line of the Request for Quotation: the quantity
  asked for against \<^verbatim>\<open>qty - ordered_qty + 0\<close>, the 0 being the
  \<^verbatim>\<open>existing_po_qty\<close> of a new document.
\<close>

definition rfq_of_po :: "store \<Rightarrow> document \<Rightarrow> document option" where
  "rfq_of_po db doc =
     (if doctype doc = PO \<and> procurement_source_doctype doc = Some SQ then
        (case procurement_source_name doc of
           None \<Rightarrow> None
         | Some sq_name \<Rightarrow>
             if sq_name = [] then None
             else (case get_doc db SQ sq_name of
                     None \<Rightarrow> None
                   | Some sq \<Rightarrow>
                       (case source_ref sq of
                          None \<Rightarrow> None
                        | Some (sq_sd, rfq_name) \<Rightarrow>
                            if sq_sd = RFQ then get_doc db RFQ rfq_name else None)))
      else None)"

definition cached_gate_rejects :: "arith \<Rightarrow> store \<Rightarrow> document \<Rightarrow> bool" where
  "cached_gate_rejects ops db doc =
     (case rfq_of_po db doc of
        None \<Rightarrow> False
      | Some rfq \<Rightarrow>
          (\<exists>po_item \<in> set (items doc).
             case find (\<lambda>i. item_code i = item_code po_item) (items rfq) of
               None \<Rightarrow> False
             | Some rfq_item \<Rightarrow>
                 qty po_item
                   > plus_op ops (minus_op ops (qty rfq_item) (ordered_qty rfq_item)) 0))"

text \<open>
  The gate as the specification words it (section 4.4: the authoritative gating decision
  is the dynamic computation, not the cache; section 4.1: the document's own prior
  contribution is excluded when it is an update): the same comparison, with the ordered
  total recomputed dynamically over the store without the document itself in the place
  of the stored \<^verbatim>\<open>ordered_qty\<close>. This definition follows the specification, not the
  source; it is what the source is compared with.
\<close>

definition other_documents :: "store \<Rightarrow> document \<Rightarrow> store" where
  "other_documents db doc =
     (if islocal doc then db
      else filter (\<lambda>d. \<not> (doctype d = doctype doc \<and> name d = name doc)) db)"

definition spec_dynamic_gate_rejects :: "arith \<Rightarrow> store \<Rightarrow> document \<Rightarrow> bool" where
  "spec_dynamic_gate_rejects ops db doc =
     (case rfq_of_po db doc of
        None \<Rightarrow> False
      | Some rfq \<Rightarrow>
          (\<exists>po_item \<in> set (items doc).
             case find (\<lambda>i. item_code i = item_code po_item) (items rfq) of
               None \<Rightarrow> False
             | Some rfq_item \<Rightarrow>
                 qty po_item
                   > minus_op ops (qty rfq_item)
                       (case calculate_rfq_ordered_quantities_dynamic ops (other_documents db doc)
                               (name rfq) (item_code po_item) of None \<Rightarrow> 0 | Some v \<Rightarrow> v)))"

subsection \<open>Example documents\<close>

text \<open>
  A line of an item with no ordered quantity yet, a stored document, and a document that
  has not been saved (\<^verbatim>\<open>is_new()\<close> is true).
\<close>

definition line :: "string \<Rightarrow> rat \<Rightarrow> line_item" where
  "line code q = \<lparr>item_code = code, qty = q, ordered_qty = 0, remaining_qty = 0\<rparr>"

definition stored ::
  "string \<Rightarrow> string \<Rightarrow> nat \<Rightarrow> string option \<Rightarrow> string option \<Rightarrow> string option \<Rightarrow> line_item list \<Rightarrow> document" where
  "stored dt n status sd sn supp its = \<lparr>doctype = dt, name = n, docstatus = status, islocal = False,
     procurement_source_doctype = sd, procurement_source_name = sn,
     supplier = supp, suppliers = [], items = its, procurement_links = []\<rparr>"

definition new_doc :: "string \<Rightarrow> string option \<Rightarrow> string option \<Rightarrow> line_item list \<Rightarrow> document" where
  "new_doc dt sd sn its = (stored dt ''new'' 0 sd sn None its)\<lparr>islocal := True\<rparr>"

text \<open>
  A Material Request for 100 of ITEM-1, a submitted Purchase Requisition for 60 of it, a
  cancelled one for 30, and a new one for \<open>q\<close>.
\<close>

definition mr1 :: document where
  "mr1 = stored ''Material Request'' ''MR-1'' 1 None None None [line ''ITEM-1'' 100]"

definition pr_a :: document where
  "pr_a = stored ''Purchase Requisition'' ''PR-A'' 1 (Some ''Material Request'') (Some ''MR-1'') None
            [line ''ITEM-1'' 60]"

definition pr_c :: document where
  "pr_c = stored ''Purchase Requisition'' ''PR-C'' 2 (Some ''Material Request'') (Some ''MR-1'') None
            [line ''ITEM-1'' 30]"

definition pr_new :: "rat \<Rightarrow> document" where
  "pr_new q = (stored ''Purchase Requisition'' ''PR-B'' 0 (Some ''Material Request'') (Some ''MR-1'') None
                [line ''ITEM-1'' q])\<lparr>islocal := True\<rparr>"

text \<open>
  The same Material Request and submitted Purchase Requisition with given quantities
  \<open>s\<close> and \<open>c\<close>, for quantities that are not whole numbers.
\<close>

definition mr_qty :: "rat \<Rightarrow> document" where
  "mr_qty s = stored ''Material Request'' ''MR-1'' 1 None None None [line ''ITEM-1'' s]"

definition pr_qty :: "rat \<Rightarrow> document" where
  "pr_qty c = stored ''Purchase Requisition'' ''PR-A'' 1 (Some ''Material Request'') (Some ''MR-1'') None
                [line ''ITEM-1'' c]"

text \<open>
  The Request for Quotation RFQ-1 for 100 of ITEM-1 to the suppliers S1 and S2, with a
  given stored \<^verbatim>\<open>ordered_qty\<close> (\<open>rfq_qty\<close> is RFQ-1 for a given quantity \<open>s\<close> instead
  of 100); the Supplier Quotations SQ-1 (of S1, for \<open>q\<close>) and SQ-2 (of S2, for 100) made
  from it; the Purchase Orders PO-A for 60 from SQ-1 and PO-B for 50 from SQ-2, with a
  given \<^verbatim>\<open>docstatus\<close>.
\<close>

definition rfq1 :: "rat \<Rightarrow> document" where
  "rfq1 ordered = (stored RFQ ''RFQ-1'' 1 (Some ''Purchase Requisition'') (Some ''PR-A'') None
      [\<lparr>item_code = ''ITEM-1'', qty = 100, ordered_qty = ordered, remaining_qty = 100 - ordered\<rparr>])
      \<lparr>suppliers := [''S1'', ''S2'']\<rparr>"

definition rfq_qty :: "rat \<Rightarrow> rat \<Rightarrow> document" where
  "rfq_qty s ordered = (stored RFQ ''RFQ-1'' 1 (Some ''Purchase Requisition'') (Some ''PR-A'') None
      [\<lparr>item_code = ''ITEM-1'', qty = s, ordered_qty = ordered,
        remaining_qty = minus_op double_ops s ordered\<rparr>])
      \<lparr>suppliers := [''S1'', ''S2'']\<rparr>"

definition sq1 :: "rat \<Rightarrow> document" where
  "sq1 q = stored SQ ''SQ-1'' 1 (Some RFQ) (Some ''RFQ-1'') (Some ''S1'') [line ''ITEM-1'' q]"

definition sq2 :: document where
  "sq2 = stored SQ ''SQ-2'' 1 (Some RFQ) (Some ''RFQ-1'') (Some ''S2'') [line ''ITEM-1'' 100]"

definition po_a :: "nat \<Rightarrow> document" where
  "po_a status = stored PO ''PO-A'' status (Some SQ) (Some ''SQ-1'') (Some ''S1'') [line ''ITEM-1'' 60]"

definition po_b :: "nat \<Rightarrow> document" where
  "po_b status = stored PO ''PO-B'' status (Some SQ) (Some ''SQ-2'') (Some ''S2'') [line ''ITEM-1'' 50]"

text \<open>
  Two stores: PO-A saved as a draft and nothing ordered yet; and, later, PO-A submitted
  (so RFQ-1 records 60 ordered) with PO-B saved as a draft before that.
\<close>

definition db_draft_order :: store where
  "db_draft_order = [rfq1 0, sq1 100, sq2, po_a 0]"

definition db_one_submitted :: store where
  "db_one_submitted = [rfq1 60, sq1 100, sq2, po_a 1, po_b 0]"

text \<open>The active flow, its steps stored out of order, and the steps in order.\<close>

definition flow_std :: procurement_flow where
  "flow_std = \<lparr>flow_docname = ''Standard'', is_active = True,
     flow_steps = [\<lparr>step_no = 2, doctype_name = ''Purchase Requisition'', requires_source = True\<rparr>,
                   \<lparr>step_no = 1, doctype_name = ''Material Request'', requires_source = False\<rparr>,
                   \<lparr>step_no = 5, doctype_name = PO, requires_source = True\<rparr>,
                   \<lparr>step_no = 3, doctype_name = RFQ, requires_source = True\<rparr>,
                   \<lparr>step_no = 4, doctype_name = SQ, requires_source = True\<rparr>]\<rparr>"

definition steps_std :: "flow_step list" where
  "steps_std = [\<lparr>step_no = 1, doctype_name = ''Material Request'', requires_source = False\<rparr>,
                \<lparr>step_no = 2, doctype_name = ''Purchase Requisition'', requires_source = True\<rparr>,
                \<lparr>step_no = 3, doctype_name = RFQ, requires_source = True\<rparr>,
                \<lparr>step_no = 4, doctype_name = SQ, requires_source = True\<rparr>,
                \<lparr>step_no = 5, doctype_name = PO, requires_source = True\<rparr>]"

text \<open>
  A corrupted store: a Purchase Requisition and a Request for Quotation that name each
  other as source. \<open>on_cycle\<close> holds of the two states of a walk through it.
\<close>

definition pr_cyclic :: document where
  "pr_cyclic = stored ''Purchase Requisition'' ''PR-9'' 1 (Some RFQ) (Some ''RFQ-9'') None []"

definition rfq_cyclic :: document where
  "rfq_cyclic = stored RFQ ''RFQ-9'' 1 (Some ''Purchase Requisition'') (Some ''PR-9'') None []"

definition db_cyclic :: store where
  "db_cyclic = [pr_cyclic, rfq_cyclic]"

definition on_cycle :: "store \<Rightarrow> string option \<Rightarrow> string option \<Rightarrow> bool" where
  "on_cycle db cd cn \<longleftrightarrow>
     db = db_cyclic
     \<and> (cd = Some ''Purchase Requisition'' \<and> cn = Some ''PR-9'' \<or> cd = Some RFQ \<and> cn = Some ''RFQ-9'')"

section \<open>Verification\<close>

subsection \<open>Cancellation guard\<close>

lemma link_pairs_dict_append:
  "link_pairs (dict_append d k v) = insert (k, v) (link_pairs d)"
  by (induction d k v rule: dict_append.induct) (auto simp: link_pairs_def)

lemma keys_dict_append:
  "fst ` set (dict_append d k v) = insert k (fst ` set d)"
  by (induction d k v rule: dict_append.induct) auto

lemma distinct_dict_append:
  "distinct (map fst d) \<Longrightarrow> distinct (map fst (dict_append d k v))"
  by (induction d k v rule: dict_append.induct) (auto simp: keys_dict_append)

lemma foldl_dict_append:
  "link_pairs (foldl (\<lambda>d link. dict_append d (target_doctype link) (target_docname link)) d links)
     = link_pairs d \<union> (\<lambda>l. (target_doctype l, target_docname l)) ` set links"
  by (induction links arbitrary: d) (auto simp: link_pairs_dict_append)

lemma foldl_dict_append_distinct:
  "distinct (map fst d) \<Longrightarrow>
   distinct (map fst (foldl (\<lambda>d link. dict_append d (target_doctype link) (target_docname link)) d links))"
  by (induction links arbitrary: d) (auto simp: distinct_dict_append)

lemma link_pairs_docs_by_type:
  "link_pairs (docs_by_type links) = (\<lambda>l. (target_doctype l, target_docname l)) ` set links"
proof -
  have "link_pairs [] = {}" by (simp add: link_pairs_def)
  then show ?thesis
    using foldl_dict_append [of "[]" links] by (simp add: docs_by_type_def)
qed

text \<open>
  C7. A document with at least one forward link is always refused by the before-cancel
  check: \<open>check_can_cancel\<close> returns the error, whose payload counts the links and
  lists every blocking descendant under its doctype, each doctype once, and nothing else.
\<close>

theorem check_can_cancel_blocks:
  assumes "procurement_links doc \<noteq> []"
  shows "check_can_cancel doc =
           Inl (CancellationNotAllowed (length (procurement_links doc))
                  (docs_by_type (procurement_links doc)))
       \<and> distinct (map fst (docs_by_type (procurement_links doc)))
       \<and> (\<forall>dt nm. (\<exists>names. (dt, names) \<in> set (docs_by_type (procurement_links doc)) \<and> nm \<in> set names)
              \<longleftrightarrow> (\<exists>l \<in> set (procurement_links doc). target_doctype l = dt \<and> target_docname l = nm))"
proof -
  have a: "check_can_cancel doc =
           Inl (CancellationNotAllowed (length (procurement_links doc))
                  (docs_by_type (procurement_links doc)))"
    using assms by (simp add: check_can_cancel_def Let_def)
  have b: "distinct (map fst (docs_by_type (procurement_links doc)))"
    unfolding docs_by_type_def by (rule foldl_dict_append_distinct) simp
  have c: "(\<exists>names. (dt, names) \<in> set (docs_by_type (procurement_links doc)) \<and> nm \<in> set names)
              \<longleftrightarrow> (\<exists>l \<in> set (procurement_links doc). target_doctype l = dt \<and> target_docname l = nm)" for dt nm
  proof -
    have "(\<exists>names. (dt, names) \<in> set (docs_by_type (procurement_links doc)) \<and> nm \<in> set names)
          \<longleftrightarrow> (dt, nm) \<in> link_pairs (docs_by_type (procurement_links doc))"
      by (simp add: link_pairs_def)
    also have "\<dots> \<longleftrightarrow> (\<exists>l \<in> set (procurement_links doc). target_doctype l = dt \<and> target_docname l = nm)"
      unfolding link_pairs_docs_by_type by auto
    finally show ?thesis .
  qed
  from a b c show ?thesis by blast
qed

text \<open>
  The Purchase Requisition with one Request for Quotation child is refused, and the error
  lists that child by name.
\<close>

theorem check_can_cancel_blocks_witness:
  "procurement_links pr_with_child \<noteq> []
   \<and> check_can_cancel pr_with_child = Inl (CancellationNotAllowed 1 [(RFQ, [''RFQ-1''])])"
  using check_can_cancel_blocks [of pr_with_child]
  by (simp add: pr_with_child_def docs_by_type_def)

subsection \<open>Supplier rules\<close>

lemma sort_key_head:
  assumes "sort_key f xs = r # rest"
  shows "r \<in> set xs \<and> (\<forall>x \<in> set xs. f r \<le> f x)"
proof -
  have s: "sorted (map f (sort_key f xs))" by (rule sorted_sort_key)
  have e: "set (sort_key f xs) = set xs" by simp
  from assms e have "r \<in> set xs" by (metis list.set_intros(1))
  moreover have "\<forall>x \<in> set xs. f r \<le> f x"
  proof
    fix x assume "x \<in> set xs"
    then have "x \<in> set (r # rest)" using e assms by simp
    then show "f r \<le> f x" using s assms by auto
  qed
  ultimately show ?thesis by blast
qed

text \<open>
  C8. \<open>get_applicable_rule\<close> returns no rule exactly when no active rule's half-open
  range holds the amount; a rule it returns is an active rule whose range holds the
  amount, and among all such rules it has the lowest priority and, among those of that
  priority, the lowest \<open>amount_from\<close>.
\<close>

theorem get_applicable_rule_spec:
  "(get_applicable_rule rules a = None \<longleftrightarrow> (\<forall>r \<in> set rules. \<not> covers r a))
   \<and> (\<forall>r. get_applicable_rule rules a = Some r \<longrightarrow>
          r \<in> set rules \<and> covers r a
          \<and> (\<forall>r' \<in> set rules. covers r' a \<longrightarrow>
                priority r < priority r' \<or> (priority r = priority r' \<and> amount_from r \<le> amount_from r')))"
proof -
  let ?m = "filter (\<lambda>r. covers r a) rules"
  let ?s = "sort_key (\<lambda>r. (priority r, amount_from r)) ?m"
  have none: "get_applicable_rule rules a = None \<longleftrightarrow> (\<forall>r \<in> set rules. \<not> covers r a)"
  proof -
    have "get_applicable_rule rules a = None \<longleftrightarrow> ?s = []"
      by (simp add: get_applicable_rule_def Let_def split: list.splits)
    also have "\<dots> \<longleftrightarrow> set ?s = {}" by (simp only: set_empty)
    also have "\<dots> \<longleftrightarrow> (\<forall>r \<in> set rules. \<not> covers r a)" by (auto simp: filter_empty_conv)
    finally show ?thesis .
  qed
  have some: "r \<in> set rules \<and> covers r a
          \<and> (\<forall>r' \<in> set rules. covers r' a \<longrightarrow>
                priority r < priority r' \<or> (priority r = priority r' \<and> amount_from r \<le> amount_from r'))"
    if "get_applicable_rule rules a = Some r" for r
  proof -
    from that obtain rest where "?s = r # rest"
      by (auto simp: get_applicable_rule_def Let_def split: list.splits)
    from sort_key_head [OF this]
    have h: "r \<in> set ?m" "\<forall>x \<in> set ?m. (priority r, amount_from r) \<le> (priority x, amount_from x)"
      by blast+
    show ?thesis using h by (auto simp: less_eq_prod_def)
  qed
  from none some show ?thesis by blast
qed

text \<open>
  With the ranges 100 to 1000 and 1000 to 5000, the amount 1000 belongs to the upper
  rule, and the amount 5000 to none.
\<close>

theorem get_applicable_rule_spec_witness:
  "get_applicable_rule [rule_low, rule_high] 1000 = Some rule_high
   \<and> get_applicable_rule [rule_low, rule_high] 5000 = None"
proof -
  have c1: "\<not> covers rule_low 1000" "covers rule_high 1000"
    by (simp_all add: covers_def rule_low_def rule_high_def)
  have c2: "\<not> covers rule_low 5000" "\<not> covers rule_high 5000"
    by (simp_all add: covers_def rule_low_def rule_high_def)
  from get_applicable_rule_spec [of "[rule_low, rule_high]" 1000] c1
  obtain r where r: "get_applicable_rule [rule_low, rule_high] 1000 = Some r"
    by (cases "get_applicable_rule [rule_low, rule_high] 1000") auto
  with get_applicable_rule_spec [of "[rule_low, rule_high]" 1000]
  have "r \<in> set [rule_low, rule_high] \<and> covers r 1000" by blast
  with c1 have "r = rule_high" by auto
  moreover from get_applicable_rule_spec [of "[rule_low, rule_high]" 5000] c2
  have "get_applicable_rule [rule_low, rule_high] 5000 = None" by simp
  ultimately show ?thesis using r by simp
qed

subsection \<open>Store and source fields\<close>

lemma truthy_Some [simp]: "truthy (Some s) \<longleftrightarrow> s \<noteq> []"
  by (simp add: truthy_def)

lemma truthy_None [simp]: "\<not> truthy None"
  by (simp add: truthy_def)

lemma source_ref_Some_iff:
  "source_ref doc = Some (sd, sn) \<longleftrightarrow>
     procurement_source_doctype doc = Some sd \<and> procurement_source_name doc = Some sn
     \<and> sd \<noteq> [] \<and> sn \<noteq> []"
  by (auto simp: source_ref_def split: option.splits)

lemma get_doc_SomeD:
  "get_doc db dt n = Some d \<Longrightarrow> doctype d = dt \<and> name d = n \<and> d \<in> set db"
  by (auto simp: get_doc_def find_Some_iff)

lemma get_doc_save_same:
  "get_doc db dt n = Some src \<Longrightarrow> doctype d = dt \<Longrightarrow> name d = n \<Longrightarrow>
   get_doc (save_doc db d) dt n = Some d"
  by (induction db) (auto simp: get_doc_def save_doc_def split: if_splits)

lemma rejected_iff: "rejected r \<longleftrightarrow> r \<noteq> Inr ()"
  by (cases r) (simp_all add: rejected_def)

lemma get_doc_member:
  "unique_names db \<Longrightarrow> d \<in> set db \<Longrightarrow> get_doc db (doctype d) (name d) = Some d"
proof (induction db)
  case Nil
  then show ?case by simp
next
  case (Cons x xs)
  show ?case
  proof (cases "d = x")
    case True
    then show ?thesis by (simp add: get_doc_def)
  next
    case False
    with Cons.prems have m: "d \<in> set xs" by simp
    from Cons.prems have u: "unique_names xs" and k: "(doctype x, name x) \<notin> (\<lambda>d. (doctype d, name d)) ` set xs"
      by (simp_all add: unique_names_def)
    from k m have "\<not> (doctype x = doctype d \<and> name x = name d)" by force
    then have "get_doc (x # xs) (doctype d) (name d) = get_doc xs (doctype d) (name d)"
      by (auto simp: get_doc_def)
    with Cons.IH [OF u m] show ?thesis by simp
  qed
qed

subsection \<open>Chain validator\<close>

lemma find_first_index:
  assumes "i < length xs" "P (xs ! i)" "\<forall>j<i. \<not> P (xs ! j)"
  shows "find P xs = Some (xs ! i)"
  using assms by (auto simp: find_Some_iff)

lemma previous_in_first:
  assumes "i < length steps" "doctype_name (steps ! i) = dt" "\<forall>j<i. doctype_name (steps ! j) \<noteq> dt" "0 < i"
  shows "previous_in steps dt = Some (steps ! (i - 1))"
proof -
  have "find (\<lambda>k. doctype_name (steps ! k) = dt \<and> k > 0) [0..<length steps] = Some i"
    unfolding find_Some_iff using assms by (intro exI [of _ i]) auto
  then show ?thesis by (simp add: previous_in_def)
qed

lemma resolve_active:
  "get_active_flow flows = Some af \<Longrightarrow>
   resolve_flow_name flows (Some (flow_docname af)) = Some (flow_docname af)"
  by (simp add: resolve_flow_name_def)

text \<open>
  C5. Let the document's step (the first step of the active flow, in step order, with the
  document's doctype) require a source. Then \<open>validate_step_order\<close> rejects with the
  both-or-neither error when exactly one of the two source fields is set; it passes when
  both are absent; with both present it never raises the both-or-neither error, and when the
  step has a step before it, it passes if the source doctype is that step's doctype and
  otherwise rejects with an error that names the expected and the actual doctype.
\<close>

theorem validate_step_order_source_rules:
  assumes af: "get_active_flow flows = Some af"
    and st: "get_flow_steps flows (flow_docname af) = Inr steps"
    and i: "i < length steps" "doctype_name (steps ! i) = doctype doc"
    and first: "\<forall>j<i. doctype_name (steps ! j) \<noteq> doctype doc"
    and req: "requires_source (steps ! i)"
  shows "(truthy (procurement_source_doctype doc) \<noteq> truthy (procurement_source_name doc)
            \<longrightarrow> validate_step_order flows doc = Inl BothOrNeither)
       \<and> (\<not> truthy (procurement_source_doctype doc) \<and> \<not> truthy (procurement_source_name doc)
            \<longrightarrow> validate_step_order flows doc = Inr ())
       \<and> (truthy (procurement_source_doctype doc) \<and> truthy (procurement_source_name doc)
            \<longrightarrow> validate_step_order flows doc \<noteq> Inl BothOrNeither)
       \<and> (truthy (procurement_source_doctype doc) \<and> truthy (procurement_source_name doc) \<and> 0 < i
            \<longrightarrow> validate_step_order flows doc =
                  (if procurement_source_doctype doc = Some (doctype_name (steps ! (i - 1)))
                   then Inr ()
                   else Inl (InvalidSource (doctype_name (steps ! (i - 1)))
                               (procurement_source_doctype doc))))"
proof -
  have cur: "get_current_step flows (doctype doc) (Some (flow_docname af)) = Inr (Some (steps ! i))"
    using find_first_index [of i steps "\<lambda>step. doctype_name step = doctype doc"] i first
    by (simp add: get_current_step_def resolve_active [OF af] st)
  have prev: "get_previous_step flows (doctype doc) (Some (flow_docname af))
                = Inr (previous_in steps (doctype doc))"
    by (simp add: get_previous_step_def resolve_active [OF af] st)
  have prev_pos: "previous_in steps (doctype doc) = Some (steps ! (i - 1))" if "0 < i"
    using previous_in_first [OF i first that] .
  have a: "validate_step_order flows doc = Inl BothOrNeither"
    if "truthy (procurement_source_doctype doc) \<noteq> truthy (procurement_source_name doc)"
    using that by (auto simp: validate_step_order_def af cur req Let_def)
  have b: "validate_step_order flows doc = Inr ()"
    if "\<not> truthy (procurement_source_doctype doc)" "\<not> truthy (procurement_source_name doc)"
    using that by (simp add: validate_step_order_def af cur req Let_def)
  have c: "validate_step_order flows doc \<noteq> Inl BothOrNeither"
    if "truthy (procurement_source_doctype doc)" "truthy (procurement_source_name doc)"
    using that by (simp add: validate_step_order_def af cur req prev Let_def split: option.splits)
  have d: "validate_step_order flows doc =
                  (if procurement_source_doctype doc = Some (doctype_name (steps ! (i - 1)))
                   then Inr ()
                   else Inl (InvalidSource (doctype_name (steps ! (i - 1)))
                               (procurement_source_doctype doc)))"
    if "truthy (procurement_source_doctype doc)" "truthy (procurement_source_name doc)" "0 < i"
    using that by (simp add: validate_step_order_def af cur req prev prev_pos Let_def)
  from a b c d show ?thesis by blast
qed

text \<open>
  In the standard flow a Purchase Requisition made from a Material Request passes, one
  made from a Request for Quotation is refused with the expected doctype named, one with
  only the source doctype set is refused, and one with no source passes.
\<close>

theorem validate_step_order_source_rules_witness:
  "validate_step_order [flow_std]
      (new_doc ''Purchase Requisition'' (Some ''Material Request'') (Some ''MR-1'') []) = Inr ()
   \<and> validate_step_order [flow_std]
      (new_doc ''Purchase Requisition'' (Some RFQ) (Some ''RFQ-1'') [])
        = Inl (InvalidSource ''Material Request'' (Some RFQ))
   \<and> validate_step_order [flow_std]
      (new_doc ''Purchase Requisition'' (Some ''Material Request'') None []) = Inl BothOrNeither
   \<and> validate_step_order [flow_std] (new_doc ''Purchase Requisition'' None None []) = Inr ()"
proof -
  have af: "get_active_flow [flow_std] = Some flow_std"
    by (simp add: get_active_flow_def flow_std_def)
  have st: "get_flow_steps [flow_std] (flow_docname flow_std) = Inr steps_std"
    by (simp add: get_flow_steps_def flow_std_def steps_std_def)
  have i: "1 < length steps_std" by (simp add: steps_std_def)
  have r: "requires_source (steps_std ! 1)" by (simp add: steps_std_def)
  have f: "\<forall>j<1. doctype_name (steps_std ! j) \<noteq> ''Purchase Requisition''"
    by (simp add: steps_std_def)
  have p: "doctype_name (steps_std ! (1 - 1)) = ''Material Request''"
    by (simp add: steps_std_def)
  have d: "doctype_name (steps_std ! 1) = doctype (new_doc ''Purchase Requisition'' sd sn [])" for sd sn
    by (simp add: steps_std_def new_doc_def stored_def)
  note T = validate_step_order_source_rules [OF af st i d _ r]
  show ?thesis
    using T [of "Some ''Material Request''" "Some ''MR-1''"]
          T [of "Some RFQ" "Some ''RFQ-1''"]
          T [of "Some ''Material Request''" None]
          T [of None None] f p
    by (simp add: new_doc_def stored_def)
qed

subsection \<open>Link graph builder\<close>

lemma edges_to_append:
  "edges_to (d\<lparr>procurement_links := procurement_links d @ [l]\<rparr>) tdt tn
     = edges_to d tdt tn + (if target_doctype l = tdt \<and> target_docname l = tn then 1 else 0)"
  by (simp add: edges_to_def)

lemma edges_to_zero_iff:
  "edges_to d tdt tn = 0 \<longleftrightarrow>
     \<not> (\<exists>link \<in> set (procurement_links d). target_doctype link = tdt \<and> target_docname link = tn)"
  by (auto simp: edges_to_def filter_empty_conv)

lemma create_backward_link_found:
  assumes "get_doc db sdt sn = Some src" "hf sdt"
  shows "\<exists>src'. get_doc (create_backward_link hf ok now db sdt sn tdt tn) sdt sn = Some src'
          \<and> edges_to src' tdt tn =
              (if edges_to src tdt tn = 0 \<and> ok then 1 else edges_to src tdt tn)"
proof (cases "edges_to src tdt tn = 0 \<and> ok")
  case True
  let ?l = "\<lparr>source_doctype = sdt, source_docname = sn, target_doctype = tdt,
             target_docname = tn, link_date = now\<rparr>"
  let ?d = "src\<lparr>procurement_links := procurement_links src @ [?l]\<rparr>"
  from get_doc_SomeD [OF assms(1)] have k: "doctype ?d = sdt" "name ?d = sn" by simp_all
  from True have ne: "\<not> (\<exists>link \<in> set (procurement_links src).
                         target_doctype link = tdt \<and> target_docname link = tn)"
    by (simp add: edges_to_zero_iff)
  from True have ok: ok by simp
  have "create_backward_link hf ok now db sdt sn tdt tn = save_doc db ?d"
    by (simp only: create_backward_link_def Let_def assms ne ok option.case simp_thms if_True if_False)
  moreover have "get_doc (save_doc db ?d) sdt sn = Some ?d"
    by (rule get_doc_save_same [OF assms(1) k])
  moreover have "edges_to ?d tdt tn = 1"
    using True by (simp add: edges_to_append)
  ultimately show ?thesis using True by simp
next
  case False
  then have "create_backward_link hf ok now db sdt sn tdt tn = db"
    using assms by (auto simp: create_backward_link_def Let_def edges_to_zero_iff)
  then show ?thesis using False assms by auto
qed

lemma create_backward_link_again:
  "create_backward_link hf ok2 now2 (create_backward_link hf True now1 db sdt sn tdt tn) sdt sn tdt tn
     = create_backward_link hf True now1 db sdt sn tdt tn"
proof (cases "get_doc db sdt sn")
  case None
  then show ?thesis by (simp add: create_backward_link_def)
next
  case (Some src)
  show ?thesis
  proof (cases "hf sdt")
    case False
    then show ?thesis using Some by (simp add: create_backward_link_def)
  next
    case True
    from create_backward_link_found [where hf = hf and ok = True and now = now1 and tdt = tdt and tn = tn, OF Some True]
    obtain src' where s: "get_doc (create_backward_link hf True now1 db sdt sn tdt tn) sdt sn = Some src'"
      and e: "edges_to src' tdt tn \<noteq> 0" by (auto split: if_splits)
    from e have "\<exists>link \<in> set (procurement_links src'). target_doctype link = tdt \<and> target_docname link = tn"
      by (simp add: edges_to_zero_iff)
    then show ?thesis
      using s True
      by (simp add: create_backward_link_def [of hf ok2 now2] Let_def)
  qed
qed

text \<open>
  C6. Recording the same link twice: when the first call persisted what it had to
  (\<open>ok1\<close>), the second call leaves the store exactly as the first left it, whatever
  its time stamp; and when the source document exists, its doctype has the link table, it
  held at most one edge to the target before, and at least one of the two saves
  succeeded, then after the two calls it holds exactly one edge to the target.
\<close>

theorem create_backward_link_idempotent:
  "(ok1 \<longrightarrow>
      create_backward_link hf ok2 now2 (create_backward_link hf ok1 now1 db sdt sn tdt tn) sdt sn tdt tn
        = create_backward_link hf ok1 now1 db sdt sn tdt tn)
   \<and> (\<forall>src. get_doc db sdt sn = Some src \<and> hf sdt \<and> edges_to src tdt tn \<le> 1 \<and> (ok1 \<or> ok2) \<longrightarrow>
         (\<exists>src2. get_doc (create_backward_link hf ok2 now2
                            (create_backward_link hf ok1 now1 db sdt sn tdt tn) sdt sn tdt tn) sdt sn
                    = Some src2
                \<and> edges_to src2 tdt tn = 1))"
proof -
  have a: "create_backward_link hf ok2 now2 (create_backward_link hf ok1 now1 db sdt sn tdt tn) sdt sn tdt tn
        = create_backward_link hf ok1 now1 db sdt sn tdt tn" if ok1
    using that create_backward_link_again [of hf ok2 now2 now1 db sdt sn tdt tn] by simp
  have b: "\<exists>src2. get_doc (create_backward_link hf ok2 now2
                            (create_backward_link hf ok1 now1 db sdt sn tdt tn) sdt sn tdt tn) sdt sn
                    = Some src2
                \<and> edges_to src2 tdt tn = 1"
    if g: "get_doc db sdt sn = Some src" and h: "hf sdt" and e: "edges_to src tdt tn \<le> 1"
      and o: "ok1 \<or> ok2" for src
  proof -
    from create_backward_link_found [where hf = hf and ok = ok1 and now = now1 and tdt = tdt and tn = tn, OF g h]
    obtain src1 where s1: "get_doc (create_backward_link hf ok1 now1 db sdt sn tdt tn) sdt sn = Some src1"
      and e1: "edges_to src1 tdt tn = (if edges_to src tdt tn = 0 \<and> ok1 then 1 else edges_to src tdt tn)"
      by blast
    from create_backward_link_found [where hf = hf and ok = ok2 and now = now2 and tdt = tdt and tn = tn, OF s1 h]
    obtain src2 where s2: "get_doc (create_backward_link hf ok2 now2
                            (create_backward_link hf ok1 now1 db sdt sn tdt tn) sdt sn tdt tn) sdt sn = Some src2"
      and e2: "edges_to src2 tdt tn = (if edges_to src1 tdt tn = 0 \<and> ok2 then 1 else edges_to src1 tdt tn)"
      by blast
    have "edges_to src2 tdt tn = 1"
      using e o e1 e2 by (auto split: if_splits)
    with s2 show ?thesis by blast
  qed
  from a b show ?thesis by blast
qed

text \<open>
  Linking MR-1 to PR-1 twice, at times 7 and 8, leaves the one edge stamped 7.
\<close>

theorem create_backward_link_idempotent_witness:
  "create_backward_link (\<lambda>dt. True) True 8
      (create_backward_link (\<lambda>dt. True) True 7 [mr1] ''Material Request'' ''MR-1''
         ''Purchase Requisition'' ''PR-1'')
      ''Material Request'' ''MR-1'' ''Purchase Requisition'' ''PR-1''
   = [mr1\<lparr>procurement_links :=
        [\<lparr>source_doctype = ''Material Request'', source_docname = ''MR-1'',
          target_doctype = ''Purchase Requisition'', target_docname = ''PR-1'', link_date = 7\<rparr>]\<rparr>]"
proof -
  have one: "create_backward_link (\<lambda>dt. True) True 7 [mr1] ''Material Request'' ''MR-1''
         ''Purchase Requisition'' ''PR-1''
     = [mr1\<lparr>procurement_links :=
        [\<lparr>source_doctype = ''Material Request'', source_docname = ''MR-1'',
          target_doctype = ''Purchase Requisition'', target_docname = ''PR-1'', link_date = 7\<rparr>]\<rparr>]"
    by (simp add: create_backward_link_def get_doc_def save_doc_def mr1_def stored_def line_def)
  show ?thesis
    using create_backward_link_idempotent [of True "\<lambda>dt. True" True 8 7 "[mr1]"
        "''Material Request''" "''MR-1''" "''Purchase Requisition''" "''PR-1''"]
    by (simp only: one simp_thms)
qed

subsection \<open>Arithmetic of doubles\<close>

text \<open>
  The floor of a quotient of numerals is an integer division; with it the simplifier
  evaluates \<open>round53\<close> at a given number.
\<close>

lemma floor_numeral_div [simp]:
  "\<lfloor>(numeral a :: rat) / numeral b\<rfloor> = numeral a div numeral b"
  using floor_divide_of_int_eq [of "numeral a" "numeral b", where ?'a = rat] by simp

lemma floor_neg_numeral_div [simp]:
  "\<lfloor>- ((numeral a :: rat) / numeral b)\<rfloor> = - numeral a div numeral b"
  using floor_divide_of_int_eq [of "- numeral a" "numeral b", where ?'a = rat] by simp

text \<open>
  The doubles of 0.1 and 0.3 are the numbers Python prints as
  \<^verbatim>\<open>(0.1).as_integer_ratio()\<close> and \<^verbatim>\<open>(0.3).as_integer_ratio()\<close>; \<^verbatim>\<open>0.3 - 0.1\<close> is
  below \<^verbatim>\<open>0.2\<close>, \<^verbatim>\<open>100.1 - 0.1\<close> is 100 although the exact difference of the two
  doubles is below 100, and \<^verbatim>\<open>2.0 ** 53 + 1\<close> is \<^verbatim>\<open>2.0 ** 53\<close>.
\<close>

lemma round53_examples:
  "round53 (1 / 10) = 3602879701896397 / 36028797018963968"
  "round53 (3 / 10) = 5404319552844595 / 18014398509481984"
  "round53 (round53 (3 / 10) - round53 (1 / 10)) < round53 (2 / 10)"
  "round53 (round53 (1001 / 10) - round53 (1 / 10)) = 100"
  "round53 (1001 / 10) - round53 (1 / 10) < 100"
  "round53 (2 ^ 53 + 1) = 2 ^ 53"
  by (simp_all add: round53_def floor_log2_def pow2_def round_half_even_def Let_def
        compute_floorlog)

subsection \<open>Quantity ledger\<close>

lemma consumed_total_add_item:
  "consumed_total (add_item ops nm m it) code
     = (if item_code it = code then plus_op ops (consumed_total m code) (qty it)
        else consumed_total m code)"
  by (simp add: consumed_total_def add_item_def Let_def split: option.splits)

lemma consumed_total_foldl_add_item:
  "consumed_total (foldl (add_item ops nm) m its) code
     = foldl (plus_op ops) (consumed_total m code) (item_lines code its)"
  by (induction its arbitrary: m) (simp_all add: item_lines_def consumed_total_add_item)

lemma consumed_total_add_child_doc:
  "consumed_total (add_child_doc ops db target_dt exclude_doc m nm) code
     = foldl (plus_op ops) (consumed_total m code) (child_lines db target_dt exclude_doc code nm)"
  by (simp add: add_child_doc_def child_lines_def consumed_total_foldl_add_item
        split: option.splits)

lemma consumed_total_foldl_add_child_doc:
  "consumed_total (foldl (add_child_doc ops db target_dt exclude_doc) m names) code
     = foldl (plus_op ops) (consumed_total m code)
         (concat (map (child_lines db target_dt exclude_doc code) names))"
  by (induction names arbitrary: m) (simp_all add: consumed_total_add_child_doc)

lemma child_lines_concat:
  assumes "unique_names db" "set ds \<subseteq> set db" "\<forall>d \<in> set ds. doctype d = target_dt"
  shows "concat (map (child_lines db target_dt exclude_doc code) (map name ds))
       = concat (map (\<lambda>d. item_lines code (items d))
           (filter (\<lambda>d. \<not> (truthy exclude_doc \<and> Some (name d) = exclude_doc)) ds))"
  using assms(2,3)
proof (induction ds)
  case Nil
  then show ?case by simp
next
  case (Cons d ds)
  from Cons.prems have "d \<in> set db" "doctype d = target_dt" by simp_all
  with get_doc_member [OF assms(1)] have "get_doc db target_dt (name d) = Some d" by blast
  then have "child_lines db target_dt exclude_doc code (name d)
        = (if truthy exclude_doc \<and> Some (name d) = exclude_doc then []
           else item_lines code (items d))"
    by (simp add: child_lines_def)
  moreover have "concat (map (child_lines db target_dt exclude_doc code) (map name ds))
       = concat (map (\<lambda>d. item_lines code (items d))
           (filter (\<lambda>d. \<not> (truthy exclude_doc \<and> Some (name d) = exclude_doc)) ds))"
    using Cons by simp
  ultimately show ?case by simp
qed

text \<open>
  The total that \<^verbatim>\<open>get_consumed_quantities_detailed\<close> returns for an item code is the
  running total over the siblings, in the order in which the code adds.
\<close>

lemma get_consumed_quantities_detailed_total:
  assumes "unique_names db" "get_items_field_name target_dt \<noteq> None"
  shows "consumed_total (get_consumed_quantities_detailed ops db sd sn target_dt exclude_doc) code
       = consumed_by_siblings ops db sd sn target_dt exclude_doc code"
proof -
  let ?P = "\<lambda>d. doctype d = target_dt \<and> (procurement_source_doctype d = Some sd
                    \<and> procurement_source_name d = Some sn \<and> docstatus d \<noteq> 2)"
  let ?ds = "filter ?P db"
  have e: "consumed_total Map.empty code = 0" by (simp add: consumed_total_def)
  have "consumed_total (get_consumed_quantities_detailed ops db sd sn target_dt exclude_doc) code
      = foldl (plus_op ops) 0
          (concat (map (child_lines db target_dt exclude_doc code) (map name ?ds)))"
    using assms(2)
    by (auto simp: get_consumed_quantities_detailed_def get_all_def
          consumed_total_foldl_add_child_doc e)
  also have "concat (map (child_lines db target_dt exclude_doc code) (map name ?ds))
      = concat (map (\<lambda>d. item_lines code (items d))
           (filter (\<lambda>d. \<not> (truthy exclude_doc \<and> Some (name d) = exclude_doc)) ?ds))"
    by (rule child_lines_concat [OF assms(1)]) auto
  also have "foldl (plus_op ops) 0 \<dots> = consumed_by_siblings ops db sd sn target_dt exclude_doc code"
    by (simp add: consumed_by_siblings_def sibling_docs_def cong: conj_cong)
  finally show ?thesis .
qed

lemma check_target_items_ok_iff:
  "check_target_items ops source_items cb its = Inr () \<longleftrightarrow>
     (\<forall>it \<in> set its. \<exists>si. find (\<lambda>si. item_code si = item_code it) source_items = Some si
                       \<and> qty it \<le> minus_op ops (qty si) (consumed_total cb (item_code it)))"
  by (induction its) (auto simp: consumed_total_def Let_def split: option.splits)

lemma request_for_quotation_not_checked:
  "doctype doc = RFQ \<Longrightarrow> validate_quantity_limits ops db doc = Inr ()"
  by (simp add: validate_quantity_limits_def split: option.splits)

text \<open>
  C1, as amended. Take a document with both source fields set that is not a Request for
  Quotation, not a Supplier Quotation made from a Request for Quotation and not a Purchase
  Order made from a Supplier Quotation that itself came from a Request for Quotation; let
  its source document exist and both doctypes be procurement doctypes. Then
  \<open>validate_quantity_limits\<close> rejects exactly when some line's item is not among the
  source's lines or its quantity exceeds the difference, as the arithmetic computes it, of
  the quantity of the first source line of that item and the consumed total: the running
  total, as the arithmetic computes it from 0, of the lines of that item of the documents
  of the same doctype from the same source that are not cancelled (the document itself
  left out when it is not new), in query order. This holds for every arithmetic \<open>ops\<close>,
  so for the arithmetic of doubles \<open>double_ops\<close>; the two comparisons are exact. A Request
  for Quotation always passes.
\<close>

theorem validate_quantity_limits_contained:
  assumes wf: "unique_names db"
    and src: "source_ref doc = Some (sd, sn)"
    and nrfq: "doctype doc \<noteq> RFQ"
    and nsq: "\<not> (doctype doc = SQ \<and> sd = RFQ)"
    and gd: "get_doc db sd sn = Some source_doc"
    and nroot: "\<not> (doctype doc = PO \<and> sd = SQ
                   \<and> procurement_source_doctype source_doc = Some RFQ
                   \<and> truthy (procurement_source_name source_doc))"
    and fld: "get_items_field_name sd \<noteq> None" "get_items_field_name (doctype doc) \<noteq> None"
  shows "(rejected (validate_quantity_limits ops db doc) \<longleftrightarrow>
           \<not> (\<forall>it \<in> set (items doc).
                \<exists>si. find (\<lambda>si. item_code si = item_code it) (items source_doc) = Some si
                   \<and> qty it \<le> minus_op ops (qty si)
                        (consumed_by_siblings ops db sd sn (doctype doc)
                            (if islocal doc then None else Some (name doc)) (item_code it))))
       \<and> (\<forall>d. doctype d = RFQ \<longrightarrow> validate_quantity_limits ops db d = Inr ())"
proof -
  have tr: "tracking_source db doc sd sn source_doc = Inr (sd, sn, source_doc)"
  proof (cases "doctype doc = PO \<and> sd = SQ")
    case False
    then show ?thesis by (auto simp: tracking_source_def)
  next
    case True
    with nroot have "\<not> (procurement_source_doctype source_doc = Some RFQ
                   \<and> truthy (procurement_source_name source_doc))" by blast
    then have "\<forall>m. source_ref source_doc \<noteq> Some (RFQ, m)"
      by (auto simp: source_ref_Some_iff)
    then show ?thesis using True
      by (auto simp: tracking_source_def split: option.splits)
  qed
  have s: "(if doctype doc = SQ \<and> sd = RFQ then validate_supplier_in_rfq db doc else Inr ()) = Inr ()"
    using nsq by auto
  have "validate_quantity_limits ops db doc =
          check_target_items ops (items source_doc)
            (get_consumed_quantities_detailed ops db sd sn (doctype doc)
               (if islocal doc then None else Some (name doc)))
            (items doc)"
    using fld nrfq
    by (auto simp: validate_quantity_limits_def src s gd tr Let_def)
  then have "rejected (validate_quantity_limits ops db doc) \<longleftrightarrow>
           \<not> (\<forall>it \<in> set (items doc).
                \<exists>si. find (\<lambda>si. item_code si = item_code it) (items source_doc) = Some si
                   \<and> qty it \<le> minus_op ops (qty si)
                        (consumed_by_siblings ops db sd sn (doctype doc)
                            (if islocal doc then None else Some (name doc)) (item_code it)))"
    by (simp add: rejected_iff check_target_items_ok_iff
          get_consumed_quantities_detailed_total [OF wf fld(2)])
  then show ?thesis
    using request_for_quotation_not_checked by blast
qed

text \<open>
  With the arithmetic of doubles. With 100 in MR-1, 60 taken by PR-A and 30 in the
  cancelled PR-C, a new Purchase Requisition for 50 is refused and one for 40 passes; a
  new Request for Quotation for 150 from PR-A passes. With 0.3 in MR-1 and 0.1 taken by
  PR-A, a new Purchase Requisition for 0.2 is refused, \<^verbatim>\<open>0.3 - 0.1\<close> being
  0.19999999999999998; with 100.1 in MR-1 and 0.1 taken, one for 100 passes,
  \<^verbatim>\<open>100.1 - 0.1\<close> being 100.
\<close>

theorem validate_quantity_limits_contained_witness:
  "rejected (validate_quantity_limits double_ops [mr1, pr_a, pr_c] (pr_new 50))
   \<and> \<not> rejected (validate_quantity_limits double_ops [mr1, pr_a, pr_c] (pr_new 40))
   \<and> consumed_by_siblings double_ops [mr1, pr_a, pr_c] ''Material Request'' ''MR-1''
        ''Purchase Requisition'' None ''ITEM-1'' = 60
   \<and> validate_quantity_limits double_ops [mr1, pr_a, pr_c]
        (new_doc RFQ (Some ''Purchase Requisition'') (Some ''PR-A'') [line ''ITEM-1'' 150]) = Inr ()
   \<and> rejected (validate_quantity_limits double_ops
                 [mr_qty (round53 (3 / 10)), pr_qty (round53 (1 / 10))] (pr_new (round53 (2 / 10))))
   \<and> \<not> rejected (validate_quantity_limits double_ops
                 [mr_qty (round53 (1001 / 10)), pr_qty (round53 (1 / 10))] (pr_new 100))"
proof -
  let ?db = "[mr1, pr_a, pr_c]"
  have wf: "unique_names ?db"
    by (simp add: unique_names_def mr1_def pr_a_def pr_c_def stored_def)
  have src: "source_ref (pr_new q) = Some (''Material Request'', ''MR-1'')" for q
    by (simp add: source_ref_def pr_new_def stored_def)
  have nrfq: "doctype (pr_new q) \<noteq> RFQ" for q
    by (simp add: pr_new_def stored_def)
  have nsq: "\<not> (doctype (pr_new q) = SQ \<and> ''Material Request'' = RFQ)" for q
    by simp
  have gd: "get_doc ?db ''Material Request'' ''MR-1'' = Some mr1"
    by (simp add: get_doc_def mr1_def stored_def)
  have nroot: "\<not> (doctype (pr_new q) = PO \<and> ''Material Request'' = SQ
                   \<and> procurement_source_doctype mr1 = Some RFQ
                   \<and> truthy (procurement_source_name mr1))" for q by simp
  have fld: "get_items_field_name ''Material Request'' \<noteq> None"
       "get_items_field_name (doctype (pr_new q)) \<noteq> None" for q
    by (simp_all add: get_items_field_name_def pr_new_def stored_def)
  have c: "consumed_by_siblings double_ops ?db ''Material Request'' ''MR-1'' ''Purchase Requisition''
        None ''ITEM-1'' = 60"
    by (simp add: consumed_by_siblings_def sibling_docs_def item_lines_def
          mr1_def pr_a_def pr_c_def stored_def line_def double_ops_def
          round53_def floor_log2_def pow2_def round_half_even_def Let_def compute_floorlog)
  note T = validate_quantity_limits_contained [OF wf src nrfq nsq gd nroot fld]
  have i: "items (pr_new q) = [line ''ITEM-1'' q]" "islocal (pr_new q)"
      "doctype (pr_new q) = ''Purchase Requisition''" "items mr1 = [line ''ITEM-1'' 100]" for q
    by (simp_all add: mr1_def pr_new_def stored_def)
  have r: "doctype (new_doc RFQ (Some ''Purchase Requisition'') (Some ''PR-A'') [line ''ITEM-1'' 150]) = RFQ"
    by (simp add: new_doc_def stored_def)
  have m: "minus_op double_ops 100 60 = 40"
    by (simp add: double_ops_def round53_def floor_log2_def pow2_def round_half_even_def
          Let_def compute_floorlog)
  have a: "rejected (validate_quantity_limits double_ops ?db (pr_new 50))"
    using T [of double_ops 50] c m by (simp add: i) (simp add: line_def)
  have b: "\<not> rejected (validate_quantity_limits double_ops ?db (pr_new 40))"
    using T [of double_ops 40] c m by (simp add: i) (simp add: line_def)
  have d: "validate_quantity_limits double_ops ?db
        (new_doc RFQ (Some ''Purchase Requisition'') (Some ''PR-A'') [line ''ITEM-1'' 150]) = Inr ()"
    using T [of double_ops 40] r by blast
  have wf2: "unique_names [mr_qty s, pr_qty t]" for s t
    by (simp add: unique_names_def mr_qty_def pr_qty_def stored_def)
  have gd2: "get_doc [mr_qty s, pr_qty t] ''Material Request'' ''MR-1'' = Some (mr_qty s)" for s t
    by (simp add: get_doc_def mr_qty_def stored_def)
  have nroot2: "\<not> (doctype (pr_new q) = PO \<and> ''Material Request'' = SQ
                   \<and> procurement_source_doctype (mr_qty s) = Some RFQ
                   \<and> truthy (procurement_source_name (mr_qty s)))" for q s by simp
  have c2: "consumed_by_siblings ops [mr_qty s, pr_qty t] ''Material Request'' ''MR-1''
        ''Purchase Requisition'' None ''ITEM-1'' = plus_op ops 0 t" for ops s t
    by (simp add: consumed_by_siblings_def sibling_docs_def item_lines_def
          mr_qty_def pr_qty_def stored_def line_def)
  have i2: "items (mr_qty s) = [line ''ITEM-1'' s]" for s
    by (simp add: mr_qty_def stored_def)
  have T2: "rejected (validate_quantity_limits ops [mr_qty s, pr_qty t] (pr_new q))
              \<longleftrightarrow> \<not> q \<le> minus_op ops s (plus_op ops 0 t)" for ops s t q
    using validate_quantity_limits_contained
            [where ops = ops, OF wf2 [of s t] src [of q] nrfq [of q] nsq [of q] gd2 [of s t]
               nroot2 [of q s] fld(1) fld(2) [of q]]
    by (simp add: i i2 line_def c2)
  have e: "rejected (validate_quantity_limits double_ops
                 [mr_qty (round53 (3 / 10)), pr_qty (round53 (1 / 10))] (pr_new (round53 (2 / 10))))"
    unfolding T2
    by (simp add: double_ops_def round53_def floor_log2_def pow2_def round_half_even_def
          Let_def compute_floorlog)
  have f: "\<not> rejected (validate_quantity_limits double_ops
                 [mr_qty (round53 (1001 / 10)), pr_qty (round53 (1 / 10))] (pr_new 100))"
    unfolding T2
    by (simp add: double_ops_def round53_def floor_log2_def pow2_def round_half_even_def
          Let_def compute_floorlog)
  from a b c d e f show ?thesis by blast
qed

text \<open>
  C1 as stated fails. A new Request for Quotation for 150 of an item of which its source
  PR-A has 60 passes the check; and a new Purchase Order for 60 passes although its source
  SQ-1 quotes 50, because the check reads the quantities of RFQ-1.
\<close>

theorem validate_quantity_limits_counterexample:
  "validate_quantity_limits double_ops [pr_a]
       ((rfq1 0)\<lparr>islocal := True, items := [line ''ITEM-1'' 150]\<rparr>) = Inr ()
   \<and> source_ref ((rfq1 0)\<lparr>islocal := True, items := [line ''ITEM-1'' 150]\<rparr>)
        = Some (''Purchase Requisition'', ''PR-A'')
   \<and> items pr_a = [line ''ITEM-1'' 60]
   \<and> validate_quantity_limits double_ops [rfq1 0, sq1 50] ((po_a 0)\<lparr>islocal := True\<rparr>) = Inr ()
   \<and> source_ref ((po_a 0)\<lparr>islocal := True\<rparr>) = Some (SQ, ''SQ-1'')
   \<and> items (po_a 0) = [line ''ITEM-1'' 60]
   \<and> items (sq1 50) = [line ''ITEM-1'' 50]"
  by (simp add: validate_quantity_limits_def source_ref_def get_doc_def tracking_source_def
        get_items_field_name_def get_consumed_quantities_detailed_def get_all_def pr_a_def rfq1_def sq1_def po_a_def stored_def line_def
        double_ops_def round53_def floor_log2_def pow2_def round_half_even_def Let_def
        compute_floorlog)

text \<open>
  C4, the failing input. RFQ-1 asks for 100 of ITEM-1 from S1 and S2, and SQ-1 of S1
  quotes the 100. The Supplier Quotation of S2 for the same 100 is refused: the check
  counts SQ-1 as having consumed the whole quantity.
\<close>

theorem supplier_quotations_compete_for_quantity:
  "validate_quantity_limits double_ops [rfq1 0, sq1 100] (sq2\<lparr>islocal := True\<rparr>)
     = Inl (QuantityExceeded ''ITEM-1'' 100 100 0 100 [(''SQ-1'', 100)])"
  by (simp add: validate_quantity_limits_def source_ref_def get_doc_def tracking_source_def
        validate_supplier_in_rfq_def add_child_doc_def add_item_def
        get_items_field_name_def get_consumed_quantities_detailed_def get_all_def rfq1_def sq1_def sq2_def stored_def line_def
        double_ops_def round53_def floor_log2_def pow2_def round_half_even_def Let_def
        compute_floorlog)

subsection \<open>Purchase Order control\<close>

lemma validate_po_against_rfq_nav:
  "validate_po_against_rfq ops db doc =
     (case rfq_of_po db doc of None \<Rightarrow> Inr ()
      | Some rfq \<Rightarrow> check_po_items ops db doc rfq (items doc))"
  by (auto simp: validate_po_against_rfq_def rfq_of_po_def split: option.splits)

lemma existing_po_qty_new: "islocal doc \<Longrightarrow> existing_po_qty db doc po_item = 0"
  by (simp add: existing_po_qty_def)

lemma check_po_items_new_iff:
  "islocal doc \<Longrightarrow>
   rejected (check_po_items ops db doc rfq its) \<longleftrightarrow>
     (\<exists>po_item \<in> set its.
        case find (\<lambda>i. item_code i = item_code po_item) (items rfq) of
          None \<Rightarrow> False
        | Some rfq_item \<Rightarrow>
            qty po_item > plus_op ops (minus_op ops (qty rfq_item) (ordered_qty rfq_item)) 0)"
  by (induction its)
     (auto simp: rejected_def Let_def existing_po_qty_new split: option.splits)

lemma check_po_items_frame:
  assumes "get_doc db' PO (name doc) = get_doc db PO (name doc)"
  shows "rejected (check_po_items ops db' doc rfq its) = rejected (check_po_items ops db doc rfq its)"
proof -
  have e: "existing_po_qty db' doc po_item = existing_po_qty db doc po_item" for po_item
    by (simp add: existing_po_qty_def assms)
  show ?thesis
    by (induction its) (auto simp: rejected_def Let_def e split: option.splits)
qed

text \<open>
  C2, as amended. The outcome of \<open>validate_po_against_rfq\<close> is decided by the stored
  \<^verbatim>\<open>ordered_qty\<close>: for a new Purchase Order it rejects exactly when some line, for
  an item of the Request for Quotation the order is traced to, asks for more than
  \<^verbatim>\<open>qty - ordered_qty + 0\<close> as the arithmetic computes it from the quantity of that
  item and its stored \<^verbatim>\<open>ordered_qty\<close>. For every Purchase Order, two stores that give
  the same Request for Quotation and the same stored version of the order give the same
  outcome, whatever other Purchase Orders they hold: the dynamic total only enters the
  error's payload. This holds for every arithmetic \<open>ops\<close>, so for the arithmetic of
  doubles \<open>double_ops\<close>.
\<close>

theorem validate_po_against_rfq_gate_is_cached:
  "(islocal doc \<longrightarrow>
      (rejected (validate_po_against_rfq ops db doc) \<longleftrightarrow> cached_gate_rejects ops db doc))
   \<and> (rfq_of_po db' doc = rfq_of_po db doc
        \<and> get_doc db' PO (name doc) = get_doc db PO (name doc)
        \<longrightarrow> rejected (validate_po_against_rfq ops db' doc)
              = rejected (validate_po_against_rfq ops db doc))"
proof -
  have a: "rejected (validate_po_against_rfq ops db doc) \<longleftrightarrow> cached_gate_rejects ops db doc"
    if "islocal doc"
  proof (cases "rfq_of_po db doc")
    case None
    then show ?thesis
      by (simp add: validate_po_against_rfq_nav cached_gate_rejects_def rejected_def)
  next
    case (Some rfq)
    then show ?thesis
      using check_po_items_new_iff [OF that, of ops db rfq "items doc"]
      by (simp add: validate_po_against_rfq_nav cached_gate_rejects_def)
  qed
  have b: "rejected (validate_po_against_rfq ops db' doc) = rejected (validate_po_against_rfq ops db doc)"
    if "rfq_of_po db' doc = rfq_of_po db doc"
      and "get_doc db' PO (name doc) = get_doc db PO (name doc)"
    using that check_po_items_frame [of db' doc db ops]
    by (cases "rfq_of_po db doc") (simp_all add: validate_po_against_rfq_nav)
  from a b show ?thesis by blast
qed

text \<open>
  With the arithmetic of doubles. A new Purchase Order for 50 from SQ-2 passes while RFQ-1
  records nothing ordered, with or without the draft PO-A in the store, and is refused
  once RFQ-1 records 60 ordered. A new Purchase Order for 0.2 is refused when RFQ-1 asks
  for 0.3 and records 0.1 ordered, \<^verbatim>\<open>0.3 - 0.1 + 0\<close> being 0.19999999999999998; one
  for 100 passes when RFQ-1 asks for 100.1 and records 0.1 ordered,
  \<^verbatim>\<open>100.1 - 0.1 + 0\<close> being 100.
\<close>

theorem validate_po_against_rfq_gate_is_cached_witness:
  "\<not> rejected (validate_po_against_rfq double_ops db_draft_order
                  (new_doc PO (Some SQ) (Some ''SQ-2'') [line ''ITEM-1'' 50]))
   \<and> \<not> rejected (validate_po_against_rfq double_ops [rfq1 0, sq1 100, sq2]
                    (new_doc PO (Some SQ) (Some ''SQ-2'') [line ''ITEM-1'' 50]))
   \<and> rejected (validate_po_against_rfq double_ops [rfq1 60, sq1 100, sq2, po_a 1]
                 (new_doc PO (Some SQ) (Some ''SQ-2'') [line ''ITEM-1'' 50]))
   \<and> rejected (validate_po_against_rfq double_ops
                 [rfq_qty (round53 (3 / 10)) (round53 (1 / 10)), sq1 100, sq2]
                 (new_doc PO (Some SQ) (Some ''SQ-2'') [line ''ITEM-1'' (round53 (2 / 10))]))
   \<and> \<not> rejected (validate_po_against_rfq double_ops
                 [rfq_qty (round53 (1001 / 10)) (round53 (1 / 10)), sq1 100, sq2]
                 (new_doc PO (Some SQ) (Some ''SQ-2'') [line ''ITEM-1'' 100]))"
proof -
  let ?doc = "new_doc PO (Some SQ) (Some ''SQ-2'') [line ''ITEM-1'' 50]"
  have n: "islocal (new_doc PO (Some SQ) (Some ''SQ-2'') its)" for its
    by (simp add: new_doc_def)
  have a: "\<not> cached_gate_rejects double_ops db_draft_order ?doc"
    by (simp add: cached_gate_rejects_def db_draft_order_def rfq_of_po_def source_ref_def
          get_doc_def rfq1_def sq1_def sq2_def po_a_def new_doc_def stored_def line_def
          double_ops_def round53_def floor_log2_def pow2_def round_half_even_def Let_def
          compute_floorlog)
  have b: "cached_gate_rejects double_ops [rfq1 60, sq1 100, sq2, po_a 1] ?doc"
    by (simp add: cached_gate_rejects_def rfq_of_po_def source_ref_def
          get_doc_def rfq1_def sq1_def sq2_def po_a_def new_doc_def stored_def line_def
          double_ops_def round53_def floor_log2_def pow2_def round_half_even_def Let_def
          compute_floorlog)
  have c: "rfq_of_po [rfq1 0, sq1 100, sq2] ?doc = rfq_of_po db_draft_order ?doc
        \<and> get_doc [rfq1 0, sq1 100, sq2] PO (name ?doc) = get_doc db_draft_order PO (name ?doc)"
    by (simp add: db_draft_order_def rfq_of_po_def source_ref_def
          get_doc_def rfq1_def sq1_def sq2_def po_a_def new_doc_def stored_def line_def)
  have g: "cached_gate_rejects ops [rfq_qty s t, sq1 100, sq2]
             (new_doc PO (Some SQ) (Some ''SQ-2'') [line ''ITEM-1'' q])
           \<longleftrightarrow> q > plus_op ops (minus_op ops s t) 0" for ops s t q
    by (simp add: cached_gate_rejects_def rfq_of_po_def source_ref_def
          get_doc_def rfq_qty_def sq1_def sq2_def new_doc_def stored_def line_def)
  have d: "cached_gate_rejects double_ops [rfq_qty (round53 (3 / 10)) (round53 (1 / 10)), sq1 100, sq2]
             (new_doc PO (Some SQ) (Some ''SQ-2'') [line ''ITEM-1'' (round53 (2 / 10))])"
    unfolding g
    by (simp add: double_ops_def round53_def floor_log2_def pow2_def round_half_even_def
          Let_def compute_floorlog)
  have e: "\<not> cached_gate_rejects double_ops [rfq_qty (round53 (1001 / 10)) (round53 (1 / 10)), sq1 100, sq2]
             (new_doc PO (Some SQ) (Some ''SQ-2'') [line ''ITEM-1'' 100])"
    unfolding g
    by (simp add: double_ops_def round53_def floor_log2_def pow2_def round_half_even_def
          Let_def compute_floorlog)
  show ?thesis
    using validate_po_against_rfq_gate_is_cached [of ?doc double_ops db_draft_order "[rfq1 0, sq1 100, sq2]"]
          validate_po_against_rfq_gate_is_cached [of ?doc double_ops "[rfq1 60, sq1 100, sq2, po_a 1]"]
          validate_po_against_rfq_gate_is_cached
            [of "new_doc PO (Some SQ) (Some ''SQ-2'') [line ''ITEM-1'' (round53 (2 / 10))]" double_ops
                "[rfq_qty (round53 (3 / 10)) (round53 (1 / 10)), sq1 100, sq2]"]
          validate_po_against_rfq_gate_is_cached
            [of "new_doc PO (Some SQ) (Some ''SQ-2'') [line ''ITEM-1'' 100]" double_ops
                "[rfq_qty (round53 (1001 / 10)) (round53 (1 / 10)), sq1 100, sq2]"]
          n a b c d e
    by blast
qed

text \<open>
  C2 as stated fails. With the draft PO-A for 60 in the store and nothing recorded on
  RFQ-1, the dynamic total of ITEM-1 is 60, so the gate of the specification refuses a new
  Purchase Order for 50 from SQ-2; \<open>validate_po_against_rfq\<close> lets it pass.
\<close>

theorem gate_is_not_dynamic_counterexample:
  "\<not> rejected (validate_po_against_rfq double_ops db_draft_order
                  (new_doc PO (Some SQ) (Some ''SQ-2'') [line ''ITEM-1'' 50]))
   \<and> spec_dynamic_gate_rejects double_ops db_draft_order
        (new_doc PO (Some SQ) (Some ''SQ-2'') [line ''ITEM-1'' 50])
   \<and> calculate_rfq_ordered_quantities_dynamic double_ops db_draft_order ''RFQ-1'' ''ITEM-1'' = Some 60"
  by (simp add: rejected_def spec_dynamic_gate_rejects_def other_documents_def db_draft_order_def
        validate_po_against_rfq_def rfq_of_po_def source_ref_def get_doc_def existing_po_qty_def
        calculate_rfq_ordered_quantities_dynamic_def get_all_def add_ordered_def
        rfq1_def sq1_def sq2_def po_a_def new_doc_def stored_def line_def
        double_ops_def round53_def floor_log2_def pow2_def round_half_even_def Let_def
        compute_floorlog)

text \<open>
  The update of the submit hook rounds as Python does: one more unit ordered on a line
  that records \<open>2 ^ 53\<close> leaves \<open>2 ^ 53\<close>.
\<close>

lemma update_rfq_items_rounds:
  "update_rfq_items double_ops ''add'' (line ''ITEM-1'' 1)
     [\<lparr>item_code = ''ITEM-1'', qty = 2 ^ 53, ordered_qty = 2 ^ 53, remaining_qty = 0\<rparr>]
   = [\<lparr>item_code = ''ITEM-1'', qty = 2 ^ 53, ordered_qty = 2 ^ 53, remaining_qty = 0\<rparr>]"
  by (simp add: line_def double_ops_def round53_def floor_log2_def pow2_def
        round_half_even_def Let_def compute_floorlog)

lemma po_b_step_order: "validate_step_order [flow_std] (po_b 0) = Inr ()"
  by (simp add: validate_step_order_def get_active_flow_def get_current_step_def
        get_previous_step_def previous_in_def resolve_flow_name_def get_flow_steps_def
        flow_std_def po_b_def stored_def line_def)

text \<open>
  C3, the failing input. PO-B for 50 from SQ-2 was saved as a draft while RFQ-1 recorded
  nothing ordered; PO-A for 60 from SQ-1 was then submitted, so RFQ-1 records 60. Every
  validation hook of a Purchase Order now passes for PO-B, and its submission raises the
  recorded quantity to 110 of 100; the Purchase Orders made from the quotations of RFQ-1
  that are not cancelled then hold 110 of ITEM-1.
\<close>

theorem second_order_accepted_after_draft:
  "validate_procurement_document double_ops [flow_std] db_one_submitted (po_b 0) = Inr ()
   \<and> on_po_validate double_ops db_one_submitted (po_b 0) = Inr ()
   \<and> get_doc (on_po_submit double_ops True db_one_submitted (po_b 1)) RFQ ''RFQ-1'' = Some (rfq1 110)
   \<and> calculate_rfq_ordered_quantities_dynamic double_ops db_one_submitted ''RFQ-1'' ''ITEM-1'' = Some 110"
proof -
  have q: "validate_quantity_limits double_ops db_one_submitted (po_b 0) = Inr ()"
    by (simp add: validate_quantity_limits_def source_ref_def get_doc_def tracking_source_def
        get_items_field_name_def get_consumed_quantities_detailed_def get_all_def
        db_one_submitted_def rfq1_def sq1_def sq2_def po_a_def po_b_def stored_def line_def
        double_ops_def round53_def floor_log2_def pow2_def round_half_even_def Let_def
        compute_floorlog)
  have i: "validate_items_against_source db_one_submitted (po_b 0) = Inr ()"
    by (simp add: validate_items_against_source_def source_ref_def get_doc_def
        get_items_field_name_def db_one_submitted_def rfq1_def sq1_def sq2_def po_a_def po_b_def stored_def line_def)
  have v: "on_po_validate double_ops db_one_submitted (po_b 0) = Inr ()"
    by (simp add: on_po_validate_def validate_supplier_matches_sq_def validate_po_against_rfq_def source_ref_def get_doc_def existing_po_qty_def
        db_one_submitted_def rfq1_def sq1_def sq2_def po_a_def po_b_def stored_def line_def
        double_ops_def round53_def floor_log2_def pow2_def round_half_even_def Let_def
        compute_floorlog)
  have s: "get_doc (on_po_submit double_ops True db_one_submitted (po_b 1)) RFQ ''RFQ-1'' = Some (rfq1 110)"
    by (simp add: on_po_submit_def update_rfq_ordered_qty_def source_ref_def get_doc_def
        save_doc_def db_one_submitted_def rfq1_def sq1_def sq2_def po_a_def po_b_def stored_def line_def
        double_ops_def round53_def floor_log2_def pow2_def round_half_even_def Let_def
        compute_floorlog)
  have d: "calculate_rfq_ordered_quantities_dynamic double_ops db_one_submitted ''RFQ-1'' ''ITEM-1'' = Some 110"
    by (simp add: calculate_rfq_ordered_quantities_dynamic_def get_all_def get_doc_def
        add_ordered_def db_one_submitted_def rfq1_def sq1_def sq2_def po_a_def po_b_def stored_def line_def
        double_ops_def round53_def floor_log2_def pow2_def round_half_even_def Let_def
        compute_floorlog)
  from q i v s d show ?thesis
    by (simp add: validate_procurement_document_def po_b_step_order)
qed

text \<open>
  Had PO-B been new at that moment it would have been refused; and its save as a draft,
  while RFQ-1 recorded nothing ordered, had passed every hook.
\<close>

lemma second_order_rejected_when_new:
  "validate_po_against_rfq double_ops [rfq1 60, sq1 100, sq2, po_a 1] ((po_b 0)\<lparr>islocal := True\<rparr>)
     = Inl (RFQLimitExceeded ''ITEM-1'' 100 60 40 50)"
  by (simp add: validate_po_against_rfq_def source_ref_def get_doc_def existing_po_qty_def calculate_rfq_ordered_quantities_dynamic_def get_all_def
        add_ordered_def rfq1_def sq1_def sq2_def po_a_def po_b_def stored_def line_def
        double_ops_def round53_def floor_log2_def pow2_def round_half_even_def Let_def
        compute_floorlog)

lemma draft_saved_before_submission:
  "validate_procurement_document double_ops [flow_std] db_draft_order
      ((new_doc PO (Some SQ) (Some ''SQ-2'') [line ''ITEM-1'' 50])\<lparr>supplier := Some ''S2''\<rparr>) = Inr ()
   \<and> on_po_validate double_ops db_draft_order
      ((new_doc PO (Some SQ) (Some ''SQ-2'') [line ''ITEM-1'' 50])\<lparr>supplier := Some ''S2''\<rparr>) = Inr ()"
proof -
  let ?doc = "(new_doc PO (Some SQ) (Some ''SQ-2'') [line ''ITEM-1'' 50])\<lparr>supplier := Some ''S2''\<rparr>"
  have o: "validate_step_order [flow_std] ?doc = Inr ()"
    by (simp add: validate_step_order_def get_active_flow_def get_current_step_def
        get_previous_step_def previous_in_def resolve_flow_name_def get_flow_steps_def
        flow_std_def rfq1_def sq1_def sq2_def po_a_def new_doc_def stored_def line_def)
  have q: "validate_quantity_limits double_ops db_draft_order ?doc = Inr ()"
    by (simp add: validate_quantity_limits_def source_ref_def get_doc_def tracking_source_def
        get_items_field_name_def get_consumed_quantities_detailed_def get_all_def
        db_draft_order_def rfq1_def sq1_def sq2_def po_a_def new_doc_def stored_def line_def
        double_ops_def round53_def floor_log2_def pow2_def round_half_even_def Let_def
        compute_floorlog)
  have i: "validate_items_against_source db_draft_order ?doc = Inr ()"
    by (simp add: validate_items_against_source_def source_ref_def get_doc_def
        get_items_field_name_def db_draft_order_def rfq1_def sq1_def sq2_def po_a_def new_doc_def stored_def line_def)
  have v: "on_po_validate double_ops db_draft_order ?doc = Inr ()"
    by (simp add: on_po_validate_def validate_supplier_matches_sq_def validate_po_against_rfq_def source_ref_def get_doc_def existing_po_qty_def
        db_draft_order_def rfq1_def sq1_def sq2_def po_a_def new_doc_def stored_def line_def
        double_ops_def round53_def floor_log2_def pow2_def round_half_even_def Let_def
        compute_floorlog)
  from o q i v show ?thesis
    by (simp add: validate_procurement_document_def)
qed

text \<open>
  C10. For a Purchase Order whose source doctype is not Supplier Quotation, or whose
  source Supplier Quotation exists and is not made from a Request for Quotation, the submit
  hook and the cancel hook leave the store, and so every line of every Request for
  Quotation, unchanged.
\<close>

theorem update_rfq_ordered_qty_noop:
  assumes "procurement_source_doctype po \<noteq> Some SQ
         \<or> (\<exists>n sq. procurement_source_name po = Some n \<and> get_doc db SQ n = Some sq
               \<and> (procurement_source_doctype sq \<noteq> Some RFQ
                   \<or> \<not> truthy (procurement_source_name sq)))"
  shows "on_po_submit ops save_ok db po = db \<and> on_po_cancel ops save_ok db po = db"
proof -
  have "update_rfq_ordered_qty ops save_ok db po action = db" for action
    using assms
    by (auto simp: update_rfq_ordered_qty_def source_ref_Some_iff split: option.splits)
  then show ?thesis by (simp add: on_po_submit_def on_po_cancel_def)
qed

text \<open>
  A Purchase Order made straight from RFQ-1, and PO-A when SQ-1 has no source doctype,
  change nothing.
\<close>

theorem update_rfq_ordered_qty_noop_witness:
  "on_po_submit double_ops True [rfq1 0, sq1 100]
      (stored PO ''PO-X'' 1 (Some RFQ) (Some ''RFQ-1'') None [line ''ITEM-1'' 60]) = [rfq1 0, sq1 100]
   \<and> on_po_cancel double_ops True [rfq1 0, (sq1 100)\<lparr>procurement_source_doctype := None\<rparr>] (po_a 1)
        = [rfq1 0, (sq1 100)\<lparr>procurement_source_doctype := None\<rparr>]"
proof -
  have a: "procurement_source_doctype
             (stored PO ''PO-X'' 1 (Some RFQ) (Some ''RFQ-1'') None [line ''ITEM-1'' 60]) \<noteq> Some SQ"
    by (simp add: rfq1_def sq1_def po_a_def stored_def line_def)
  have b: "procurement_source_name (po_a 1) = Some ''SQ-1''
       \<and> get_doc [rfq1 0, (sq1 100)\<lparr>procurement_source_doctype := None\<rparr>] SQ ''SQ-1''
           = Some ((sq1 100)\<lparr>procurement_source_doctype := None\<rparr>)
       \<and> procurement_source_doctype ((sq1 100)\<lparr>procurement_source_doctype := None\<rparr>) \<noteq> Some RFQ"
    by (simp add: get_doc_def rfq1_def sq1_def po_a_def stored_def line_def)
  show ?thesis
    using update_rfq_ordered_qty_noop [of "stored PO ''PO-X'' 1 (Some RFQ) (Some ''RFQ-1'') None [line ''ITEM-1'' 60]"
             "[rfq1 0, sq1 100]" double_ops True] a
          update_rfq_ordered_qty_noop [of "po_a 1" "[rfq1 0, (sq1 100)\<lparr>procurement_source_doctype := None\<rparr>]" double_ops True] b
    by blast
qed

subsection \<open>Backward walks\<close>

lemma backward_chain_loop_cyclic:
  assumes r: "backward_chain_loop db cd cn chain = Some y"
  shows "\<not> on_cycle db cd cn"
  apply (rule backward_chain_loop.raw_induct
           [where P = "\<lambda>db cd cn chain y. \<not> on_cycle db cd cn", OF _ r])
  subgoal premises prems for loop db cd cn chain y
  proof
    assume "on_cycle db cd cn"
    then consider "db = db_cyclic" "cd = Some ''Purchase Requisition''" "cn = Some ''PR-9''"
      | "db = db_cyclic" "cd = Some RFQ" "cn = Some ''RFQ-9''"
      by (auto simp: on_cycle_def)
    then show False
    proof cases
      case 1
      with prems(2) have "loop db_cyclic (Some RFQ) (Some ''RFQ-9'')
                              (chain @ [(''Purchase Requisition'', ''PR-9'')]) = Some y"
        by (simp add: get_doc_def pr_cyclic_def rfq_cyclic_def db_cyclic_def stored_def)
      from prems(1) [OF this] show False by (simp add: on_cycle_def)
    next
      case 2
      with prems(2) have "loop db_cyclic (Some ''Purchase Requisition'') (Some ''PR-9'')
                              (chain @ [(RFQ, ''RFQ-9'')]) = Some y"
        by (simp add: get_doc_def pr_cyclic_def rfq_cyclic_def db_cyclic_def stored_def)
      from prems(1) [OF this] show False by (simp add: on_cycle_def)
    qed
  qed
  done

lemma path_loop_bounded:
  "length (path_loop db dt n i path) \<le> length path + (20 - i)"
proof (induction db dt n i path rule: path_loop.induct)
  case (1 db current_dt current_name iterations path)
  show ?case
  proof (cases "iterations < 20")
    case False
    then show ?thesis by (simp add: path_loop.simps [of db current_dt current_name iterations path])
  next
    case True
    show ?thesis
    proof (cases "get_doc db current_dt current_name")
      case None
      with True show ?thesis
        by (simp add: path_loop.simps [of db current_dt current_name iterations path])
    next
      case (Some doc)
      show ?thesis
      proof (cases "source_ref doc")
        case None
        with True Some show ?thesis
          by (simp add: path_loop.simps [of db current_dt current_name iterations path])
      next
        case (Some p)
        obtain sd sn where p: "p = (sd, sn)" by (cases p)
        from "1.IH" [OF True refl \<open>get_doc db current_dt current_name = Some doc\<close>
                       Some[unfolded p] refl]
        have "length (path_loop db sd sn (iterations + 1) ((current_dt, current_name) # path))
                \<le> length ((current_dt, current_name) # path) + (20 - (iterations + 1))" .
        with True Some p \<open>get_doc db current_dt current_name = Some doc\<close> show ?thesis
          by (simp add: path_loop.simps [of db current_dt current_name iterations path] Let_def)
      qed
    qed
  qed
qed

text \<open>
  C9, the failing input. In the store where PR-9 and RFQ-9 name each other as source, the
  backward walk of \<^verbatim>\<open>get_linked_documents_with_counts\<close> from PR-9 never returns, while
  \<^verbatim>\<open>find_root_document\<close> and \<^verbatim>\<open>get_path_to_document\<close>, which count their hops,
  return.
\<close>

theorem backward_walk_without_cap_diverges:
  "backward_links db_cyclic pr_cyclic = None
   \<and> find_root_document db_cyclic ''Purchase Requisition'' ''PR-9'' = (''Purchase Requisition'', ''PR-9'')
   \<and> get_path_to_document db_cyclic ''Purchase Requisition'' ''PR-9''
        = {(''Purchase Requisition'', ''PR-9''), (RFQ, ''RFQ-9'')}"
proof -
  have "backward_chain_loop db_cyclic (Some RFQ) (Some ''RFQ-9'') [] = None"
    using backward_chain_loop_cyclic [of db_cyclic "Some RFQ" "Some ''RFQ-9''" "[]"]
    by (cases "backward_chain_loop db_cyclic (Some RFQ) (Some ''RFQ-9'') []")
       (auto simp: on_cycle_def)
  then have a: "backward_links db_cyclic pr_cyclic = None"
    by (simp add: backward_links_def source_ref_def pr_cyclic_def rfq_cyclic_def db_cyclic_def stored_def)
  have b: "find_root_document db_cyclic ''Purchase Requisition'' ''PR-9'' = (''Purchase Requisition'', ''PR-9'')"
    unfolding find_root_document_def by code_simp
  have c: "get_path_to_document db_cyclic ''Purchase Requisition'' ''PR-9''
        = {(''Purchase Requisition'', ''PR-9''), (RFQ, ''RFQ-9'')}"
    unfolding get_path_to_document_def by code_simp
  from a b c show ?thesis by simp
qed

end
